theory Spec2Isabelle
  imports Complex_Main
begin

section \<open>Numeric values\<close>

text \<open>
  The engine computes with Python floats and numpy \<open>float64\<close> values. They are modelled
  as exact reals extended with the three non-finite IEEE values, so that a computation
  which yields \<open>nan\<close> or \<open>inf\<close> in the source yields \<open>NaN\<close>, \<open>PInf\<close> or \<open>NInf\<close> here.
  Rounding, overflow of finite values and the sign of zero are not modelled: a finite
  value is the real number it stands for, and zero counts as positive zero.
\<close>

datatype fl = Fin real | PInf | NInf | NaN

instantiation fl :: "{plus, minus, uminus, times, inverse}"
begin

fun uminus_fl :: "fl \<Rightarrow> fl" where
  "uminus_fl (Fin a) = Fin (- a)"
| "uminus_fl PInf = NInf"
| "uminus_fl NInf = PInf"
| "uminus_fl NaN = NaN"

fun plus_fl :: "fl \<Rightarrow> fl \<Rightarrow> fl" where
  "plus_fl NaN _ = NaN"
| "plus_fl _ NaN = NaN"
| "plus_fl (Fin a) (Fin b) = Fin (a + b)"
| "plus_fl PInf NInf = NaN"
| "plus_fl NInf PInf = NaN"
| "plus_fl PInf _ = PInf"
| "plus_fl _ PInf = PInf"
| "plus_fl NInf _ = NInf"
| "plus_fl _ NInf = NInf"

definition minus_fl :: "fl \<Rightarrow> fl \<Rightarrow> fl" where
  "minus_fl a b = a + (- b)"

fun times_fl :: "fl \<Rightarrow> fl \<Rightarrow> fl" where
  "times_fl NaN _ = NaN"
| "times_fl _ NaN = NaN"
| "times_fl (Fin a) (Fin b) = Fin (a * b)"
| "times_fl PInf PInf = PInf"
| "times_fl PInf NInf = NInf"
| "times_fl NInf PInf = NInf"
| "times_fl NInf NInf = PInf"
| "times_fl PInf (Fin b) = (if b = 0 then NaN else if 0 < b then PInf else NInf)"
| "times_fl NInf (Fin b) = (if b = 0 then NaN else if 0 < b then NInf else PInf)"
| "times_fl (Fin a) PInf = (if a = 0 then NaN else if 0 < a then PInf else NInf)"
| "times_fl (Fin a) NInf = (if a = 0 then NaN else if 0 < a then NInf else PInf)"

text \<open>
  numpy's true division: a finite value over zero is an infinity (or \<open>nan\<close> for \<open>0/0\<close>)
  with a warning, never an exception.
\<close>

fun divide_fl :: "fl \<Rightarrow> fl \<Rightarrow> fl" where
  "divide_fl NaN _ = NaN"
| "divide_fl _ NaN = NaN"
| "divide_fl (Fin a) (Fin b) =
     (if b \<noteq> 0 then Fin (a / b) else if a = 0 then NaN else if 0 < a then PInf else NInf)"
| "divide_fl (Fin a) PInf = Fin 0"
| "divide_fl (Fin a) NInf = Fin 0"
| "divide_fl PInf (Fin b) = (if 0 \<le> b then PInf else NInf)"
| "divide_fl NInf (Fin b) = (if 0 \<le> b then NInf else PInf)"
| "divide_fl PInf _ = NaN"
| "divide_fl NInf _ = NaN"

definition inverse_fl :: "fl \<Rightarrow> fl" where
  "inverse_fl a = divide (Fin 1) a"

instance ..

end

fun is_finite :: "fl \<Rightarrow> bool" where
  "is_finite (Fin a) = True"
| "is_finite _ = False"

text \<open>
  \<open>x ** 2\<close> on a float. On a plain Python float whose square exceeds the range of
  float64 (a magnitude beyond about \<open>1.34e154\<close>) Python raises \<open>OverflowError\<close>; like every
  overflow, this is not modelled, and the statements below about what
  \<open>calculate_d1_d2\<close> raises bound the volatility accordingly.
\<close>

fun pow2 :: "fl \<Rightarrow> fl" where
  "pow2 (Fin a) = Fin (a ^ 2)"
| "pow2 PInf = PInf"
| "pow2 NInf = PInf"
| "pow2 NaN = NaN"

text \<open>\<open>np.log\<close>, \<open>np.sqrt\<close> and \<open>np.exp\<close>: outside their real domain they return
  \<open>nan\<close> or an infinity (with a warning) and do not raise.\<close>

fun np_log :: "fl \<Rightarrow> fl" where
  "np_log (Fin a) = (if 0 < a then Fin (ln a) else if a = 0 then NInf else NaN)"
| "np_log PInf = PInf"
| "np_log NInf = NaN"
| "np_log NaN = NaN"

fun np_sqrt :: "fl \<Rightarrow> fl" where
  "np_sqrt (Fin a) = (if 0 \<le> a then Fin (sqrt a) else NaN)"
| "np_sqrt PInf = PInf"
| "np_sqrt NInf = NaN"
| "np_sqrt NaN = NaN"

fun np_exp :: "fl \<Rightarrow> fl" where
  "np_exp (Fin a) = Fin (exp a)"
| "np_exp PInf = PInf"
| "np_exp NInf = Fin 0"
| "np_exp NaN = NaN"

subsection \<open>The standard normal distribution\<close>

text \<open>
  Modelled from the spec: \<open>scipy.stats.norm\<close> is a library, not a source file of the
  repository. The spec names \<open>\<Phi>\<close> the standard normal cumulative distribution function and
  \<open>\<phi>\<close> the standard normal density. The density is \<open>exp (- x\<^sup>2 / 2) / sqrt (2 pi)\<close>; the
  distribution function is its integral from minus infinity, written here as the
  everywhere convergent power series obtained by integrating the density term by term:
  \<open>\<Phi> x = 1/2 + (\<Sum>n. (-1)^n x^(2n+1) / (2^n n! (2n+1))) / sqrt (2 pi)\<close>.
\<close>

definition std_normal_pdf :: "real \<Rightarrow> real" where
  "std_normal_pdf x = exp (- (x ^ 2) / 2) / sqrt (2 * pi)"

definition cdf_term :: "real \<Rightarrow> nat \<Rightarrow> real" where
  "cdf_term x n = (- 1) ^ n * x ^ (2 * n + 1) / (2 ^ n * fact n * real (2 * n + 1))"

definition std_normal_cdf :: "real \<Rightarrow> real" where
  "std_normal_cdf x = 1 / 2 + (\<Sum>n. cdf_term x n) / sqrt (2 * pi)"

text \<open>
  \<open>norm.cdf\<close> and \<open>norm.pdf\<close> on float arguments. The values on finite arguments are
  exact; in float64 the density underflows to zero once the argument exceeds about 38.6
  in magnitude, which \<open>calculate_greeks_rounded\<close> below takes into account.
\<close>

fun norm_cdf :: "fl \<Rightarrow> fl" where
  "norm_cdf (Fin a) = Fin (std_normal_cdf a)"
| "norm_cdf PInf = Fin 1"
| "norm_cdf NInf = Fin 0"
| "norm_cdf NaN = NaN"

fun norm_pdf :: "fl \<Rightarrow> fl" where
  "norm_pdf (Fin a) = Fin (std_normal_pdf a)"
| "norm_pdf PInf = Fin 0"
| "norm_pdf NInf = Fin 0"
| "norm_pdf NaN = NaN"

section \<open>The pricing engine\<close>

text \<open>
  Exceptions the engine can raise. \<open>DomainError\<close> is the error the specification asks
  for; no statement of the source raises it.
\<close>

datatype pyerror = ZeroDivisionError | ValueError | UnboundLocalError | DomainError

text \<open>
  A number is either a plain Python number or a numpy \<open>float64\<close>. The two differ in one
  operation the engine uses: \<open>a / b\<close> on two plain Python numbers raises
  \<open>ZeroDivisionError\<close> when \<open>b\<close> is zero, and is numpy's division as soon as one operand
  is a numpy value.
\<close>

datatype num = PyFloat fl | NpFloat fl

fun val :: "num \<Rightarrow> fl" where
  "val (PyFloat a) = a"
| "val (NpFloat a) = a"

fun truediv :: "num \<Rightarrow> num \<Rightarrow> pyerror + fl" where
  "truediv (PyFloat a) (PyFloat b) = (if b = Fin 0 then Inl ZeroDivisionError else Inr (a / b))"
| "truediv a b = Inr (val a / val b)"

subsection \<open>\<open>calculate_time_to_expiry\<close>\<close>

text \<open>
  A naive \<open>datetime\<close> is an integer count of microseconds on the proleptic calendar; the
  clock reading \<open>datetime.now()\<close> is the parameter \<open>current_date\<close>. The \<open>days\<close> field of
  the normalised \<open>timedelta\<close> is the difference divided by one day, rounded down.
\<close>

definition timedelta_days :: "int \<Rightarrow> int" where
  "timedelta_days us = us div 86400000000"

definition calculate_time_to_expiry :: "int \<Rightarrow> int \<Rightarrow> real" where
  "calculate_time_to_expiry current_date expiration_date =
     (let days_to_expiry = timedelta_days (expiration_date - current_date);
          T = max (real_of_int days_to_expiry / 365) (1 / 10000)
      in T)"

subsection \<open>\<open>calculate_d1_d2\<close>\<close>

definition calculate_d1_d2 :: "num \<Rightarrow> num \<Rightarrow> fl \<Rightarrow> fl \<Rightarrow> fl \<Rightarrow> pyerror + (fl \<times> fl)" where
  "calculate_d1_d2 S K r sigma T =
     (case truediv S K of
        Inl e \<Rightarrow> Inl e
      | Inr q \<Rightarrow>
          let d1 = (np_log q + (r + Fin (1/2) * pow2 sigma) * T) / (sigma * np_sqrt T);
              d2 = d1 - sigma * np_sqrt T
          in Inr (d1, d2))"

subsection \<open>\<open>calculate_option_price\<close>\<close>

text \<open>
  \<open>str.lower\<close> on the characters a \<open>char\<close> can hold (code points below 256): the ASCII
  capitals and the Latin-1 capitals move up by 32, everything else is unchanged.
\<close>

definition lower_char :: "char \<Rightarrow> char" where
  "lower_char c =
     (let n = of_char c :: nat
      in if (65 \<le> n \<and> n \<le> 90) \<or> (192 \<le> n \<and> n \<le> 222 \<and> n \<noteq> 215)
         then char_of (n + 32) else c)"

definition lower :: "string \<Rightarrow> string" where
  "lower s = map lower_char s"

definition calculate_option_price ::
  "num \<Rightarrow> num \<Rightarrow> fl \<Rightarrow> fl \<Rightarrow> fl \<Rightarrow> string \<Rightarrow> pyerror + fl" where
  "calculate_option_price S K r sigma T option_type =
     (case calculate_d1_d2 S K r sigma T of
        Inl e \<Rightarrow> Inl e
      | Inr (d1, d2) \<Rightarrow>
          if lower option_type = ''call''
          then Inr (val S * norm_cdf d1 - val K * np_exp (- r * T) * norm_cdf d2)
          else Inr (val K * np_exp (- r * T) * norm_cdf (- d2) - val S * norm_cdf (- d1)))"

subsection \<open>\<open>calculate_greeks\<close>\<close>

text \<open>
  The dictionary with the keys \<open>delta\<close>, \<open>gamma\<close>, \<open>vega\<close>, \<open>theta\<close> and \<open>rho\<close>. The
  sweep builds a dictionary with the same keys whose values are lists, so the record is
  polymorphic in the type of its values.
\<close>

record 'a greeks =
  delta :: 'a
  gamma :: 'a
  vega :: 'a
  theta :: 'a
  rho :: 'a

definition calculate_greeks ::
  "num \<Rightarrow> num \<Rightarrow> fl \<Rightarrow> fl \<Rightarrow> fl \<Rightarrow> string \<Rightarrow> pyerror + fl greeks" where
  "calculate_greeks S K r sigma T option_type =
     (case calculate_d1_d2 S K r sigma T of
        Inl e \<Rightarrow> Inl e
      | Inr (d1, d2) \<Rightarrow>
          let sqrt_T = np_sqrt T;
              exp_neg_rT = np_exp (- r * T);
              n_prime_d1 = norm_pdf d1
          in if lower option_type = ''call''
             then Inr \<lparr>
               delta = norm_cdf d1,
               gamma = n_prime_d1 / (val S * sigma * sqrt_T),
               vega = val S * n_prime_d1 * sqrt_T / Fin 100,
               theta = (- val S * n_prime_d1 * sigma / (Fin 2 * sqrt_T)
                        - r * val K * exp_neg_rT * norm_cdf d2) / Fin 365,
               rho = val K * T * exp_neg_rT * norm_cdf d2 / Fin 100 \<rparr>
             else Inr \<lparr>
               delta = norm_cdf d1 - Fin 1,
               gamma = n_prime_d1 / (val S * sigma * sqrt_T),
               vega = val S * n_prime_d1 * sqrt_T / Fin 100,
               theta = (- val S * n_prime_d1 * sigma / (Fin 2 * sqrt_T)
                        + r * val K * exp_neg_rT * norm_cdf (- d2)) / Fin 365,
               rho = - val K * T * exp_neg_rT * norm_cdf (- d2) / Fin 100 \<rparr>)"

subsection \<open>\<open>calculate_greeks\<close> with the underflow of float64\<close>


definition calculate_greeks_rounded ::
  "(fl \<Rightarrow> fl) \<Rightarrow> num \<Rightarrow> num \<Rightarrow> fl \<Rightarrow> fl \<Rightarrow> fl \<Rightarrow> string \<Rightarrow> pyerror + fl greeks" where
  "calculate_greeks_rounded rnd S K r sigma T option_type =
     (case calculate_d1_d2 S K r sigma T of
        Inl e \<Rightarrow> Inl e
      | Inr (d1, d2) \<Rightarrow>
          let sqrt_T = np_sqrt T;
              exp_neg_rT = rnd (np_exp (rnd (- r * T)));
              n_prime_d1 = rnd (norm_pdf d1)
          in if lower option_type = ''call''
             then Inr \<lparr>
               delta = rnd (norm_cdf d1),
               gamma = rnd (n_prime_d1 / rnd (rnd (val S * sigma) * sqrt_T)),
               vega = rnd (rnd (rnd (val S * n_prime_d1) * sqrt_T) / Fin 100),
               theta = rnd ((rnd (rnd (rnd (- val S * n_prime_d1) * sigma) / rnd (Fin 2 * sqrt_T))
                             - rnd (rnd (rnd (r * val K) * exp_neg_rT) * rnd (norm_cdf d2)))
                            / Fin 365),
               rho = rnd (rnd (rnd (rnd (val K * T) * exp_neg_rT) * rnd (norm_cdf d2))
                          / Fin 100) \<rparr>
             else Inr \<lparr>
               delta = rnd (norm_cdf d1) - Fin 1,
               gamma = rnd (n_prime_d1 / rnd (rnd (val S * sigma) * sqrt_T)),
               vega = rnd (rnd (rnd (val S * n_prime_d1) * sqrt_T) / Fin 100),
               theta = rnd ((rnd (rnd (rnd (- val S * n_prime_d1) * sigma) / rnd (Fin 2 * sqrt_T))
                             + rnd (rnd (rnd (r * val K) * exp_neg_rT) * rnd (norm_cdf (- d2))))
                            / Fin 365),
               rho = rnd (rnd (rnd (rnd (- val K * T) * exp_neg_rT) * rnd (norm_cdf (- d2)))
                          / Fin 100) \<rparr>)"

subsection \<open>\<open>calculate_historical_volatility\<close>\<close>

text \<open>
  The price series is a pandas \<open>Series\<close> of finite closing prices, modelled as a list of
  reals. The pandas operations the function chains are modelled one by one.

  \<open>pct_change\<close>: the first entry is \<open>nan\<close>, every later entry is the price over the
  previous price, minus one, in numpy's arithmetic (a zero previous price gives an
  infinity or \<open>nan\<close>).
\<close>

definition pct_change :: "real list \<Rightarrow> fl list" where
  "pct_change ps =
     (case ps of
        [] \<Rightarrow> []
      | _ # rest \<Rightarrow> NaN # map2 (\<lambda>prev cur. Fin cur / Fin prev - Fin 1) ps rest)"

text \<open>\<open>dropna\<close> removes the \<open>nan\<close> entries and keeps the infinities.\<close>

definition dropna :: "fl list \<Rightarrow> fl list" where
  "dropna xs = filter (\<lambda>v. v \<noteq> NaN) xs"

text \<open>
  \<open>rolling(window).std()\<close>: the constructor rejects a negative window with \<open>ValueError\<close>.
  Entry \<open>i\<close> of the result looks at the \<open>window\<close> entries ending at \<open>i\<close>; infinities
  count as missing; with fewer than \<open>window\<close> observations (the default \<open>min_periods\<close>)
  or fewer than two (one degree of freedom is subtracted) the entry is \<open>nan\<close>, otherwise
  it is the sample standard deviation of the observations.
\<close>

fun observations :: "fl list \<Rightarrow> real list" where
  "observations [] = []"
| "observations (Fin a # xs) = a # observations xs"
| "observations (_ # xs) = observations xs"

definition sample_std :: "real list \<Rightarrow> real" where
  "sample_std vs =
     (let n = real (length vs); mean = sum_list vs / n
      in sqrt (sum_list (map (\<lambda>v. (v - mean)\<^sup>2) vs) / (n - 1)))"

definition rolling_std :: "nat \<Rightarrow> fl list \<Rightarrow> fl list" where
  "rolling_std window xs =
     map (\<lambda>i. let obs = observations (drop (Suc i - window) (take (Suc i) xs))
              in if window \<le> length obs \<and> 1 < length obs then Fin (sample_std obs) else NaN)
         [0..<length xs]"

definition calculate_historical_volatility :: "real list \<Rightarrow> int \<Rightarrow> pyerror + fl" where
  "calculate_historical_volatility price_data window =
     (let returns = dropna (pct_change price_data)
      in if window < 0 then Inl ValueError
         else
           let daily_vol = rolling_std (nat window) returns;
               annualized_vol = map (\<lambda>v. v * np_sqrt (Fin 252)) daily_vol
           in Inr (if length annualized_vol > 0 then last annualized_vol else Fin (2 / 10)))"

subsection \<open>\<open>generate_sensitivity_data\<close>\<close>

text \<open>
  \<open>np.linspace(start, stop, num)\<close> with the default \<open>endpoint=True\<close>: a negative \<open>num\<close> is
  a \<open>ValueError\<close>; otherwise the integers below \<open>num\<close> are scaled by the step (by the whole
  difference when \<open>num\<close> is 0 or 1), shifted by \<open>start\<close>, and for \<open>num > 1\<close> the last
  entry is overwritten with \<open>stop\<close>.
\<close>

definition linspace :: "fl \<Rightarrow> fl \<Rightarrow> int \<Rightarrow> pyerror + fl list" where
  "linspace start stop num =
     (if num < 0 then Inl ValueError
      else
        let divisor = num - 1;
            y = map (\<lambda>i. Fin (real i)) [0..<nat num];
            delta' = stop - start;
            y = (if 0 < divisor
                 then let step = delta' / Fin (real_of_int divisor)
                      in if step = Fin 0
                         then map (\<lambda>v. v / Fin (real_of_int divisor) * delta') y
                         else map (\<lambda>v. v * step) y
                 else map (\<lambda>v. v * delta') y);
            y = map (\<lambda>v. v + start) y
        in Inr (if 1 < num then y[nat num - 1 := stop] else y))"

text \<open>
  The dictionary \<open>base_params\<close> and the assignment \<open>params[vary_param] = x\<close> on a copy
  of it. The swept values come out of a numpy array, so the value stored is a numpy
  \<open>float64\<close>.
\<close>

record params =
  prm_S :: num
  prm_K :: num
  prm_r :: fl
  prm_sigma :: fl
  prm_T :: fl

definition set_param :: "params \<Rightarrow> string \<Rightarrow> fl \<Rightarrow> params" where
  "set_param p vary_param x =
     (if vary_param = ''S'' then p\<lparr>prm_S := NpFloat x\<rparr>
      else if vary_param = ''K'' then p\<lparr>prm_K := NpFloat x\<rparr>
      else if vary_param = ''r'' then p\<lparr>prm_r := x\<rparr>
      else if vary_param = ''sigma'' then p\<lparr>prm_sigma := x\<rparr>
      else if vary_param = ''T'' then p\<lparr>prm_T := x\<rparr>
      else p)"

text \<open>
  The loop over \<open>x_values\<close>. The accumulator is the list \<open>prices\<close> and the dictionary
  \<open>greeks_dict\<close> of five lists; each round appends one entry to each of the six lists. An
  exception in the price or the Greeks of one point ends the loop.
\<close>

fun sweep_loop ::
  "params \<Rightarrow> string \<Rightarrow> string \<Rightarrow> fl list \<Rightarrow> fl list \<times> fl list greeks
   \<Rightarrow> pyerror + (fl list \<times> fl list greeks)" where
  "sweep_loop base_params vary_param option_type [] acc = Inr acc"
| "sweep_loop base_params vary_param option_type (x # xs) (prices, greeks_dict) =
     (let params = set_param base_params vary_param x
      in case calculate_option_price (prm_S params) (prm_K params) (prm_r params)
                (prm_sigma params) (prm_T params) option_type of
           Inl e \<Rightarrow> Inl e
         | Inr price \<Rightarrow>
             (case calculate_greeks (prm_S params) (prm_K params) (prm_r params)
                     (prm_sigma params) (prm_T params) option_type of
                Inl e \<Rightarrow> Inl e
              | Inr g \<Rightarrow>
                  sweep_loop base_params vary_param option_type xs
                    (prices @ [price],
                     \<lparr> delta = delta greeks_dict @ [delta g],
                       gamma = gamma greeks_dict @ [gamma g],
                       vega = vega greeks_dict @ [vega g],
                       theta = theta greeks_dict @ [theta g],
                       rho = rho greeks_dict @ [rho g] \<rparr>)))"

text \<open>
  With a selector that is none of the four, no branch binds \<open>x_values\<close> and the loop
  header raises \<open>UnboundLocalError\<close>.
\<close>

definition generate_sensitivity_data ::
  "num \<Rightarrow> num \<Rightarrow> fl \<Rightarrow> fl \<Rightarrow> fl \<Rightarrow> string \<Rightarrow> string \<Rightarrow> fl \<Rightarrow> int
   \<Rightarrow> pyerror + (fl list \<times> fl list \<times> fl list greeks)" where
  "generate_sensitivity_data S K r sigma T option_type param range_pct points =
     (let base_params = \<lparr> prm_S = S, prm_K = K, prm_r = r, prm_sigma = sigma, prm_T = T \<rparr>;
          chosen =
            (if param = ''spot''
             then map_sum id (\<lambda>x_values. (x_values, ''S''))
                    (linspace (val S * (Fin 1 - range_pct)) (val S * (Fin 1 + range_pct)) points)
             else if param = ''strike''
             then map_sum id (\<lambda>x_values. (x_values, ''K''))
                    (linspace (val K * (Fin 1 - range_pct)) (val K * (Fin 1 + range_pct)) points)
             else if param = ''volatility''
             then map_sum id (\<lambda>x_values. (x_values, ''sigma''))
                    (linspace (sigma * Fin (5 / 10)) (sigma * Fin (15 / 10)) points)
             else if param = ''time''
             then map_sum id (\<lambda>x_values. (x_values, ''T''))
                    (linspace (Fin (1 / 100)) T points)
             else Inl UnboundLocalError)
      in case chosen of
           Inl e \<Rightarrow> Inl e
         | Inr (x_values, vary_param) \<Rightarrow>
             (case sweep_loop base_params vary_param option_type x_values
                     ([], \<lparr> delta = [], gamma = [], vega = [], theta = [], rho = [] \<rparr>) of
                Inl e \<Rightarrow> Inl e
              | Inr (prices, greeks_dict) \<Rightarrow> Inr (x_values, prices, greeks_dict)))"

text \<open>The comparison \<open><\<close> of two floats: false as soon as one of them is \<open>nan\<close>.\<close>

fun fl_less :: "fl \<Rightarrow> fl \<Rightarrow> bool" where
  "fl_less (Fin a) (Fin b) = (a < b)"
| "fl_less NInf (Fin b) = True"
| "fl_less NInf PInf = True"
| "fl_less (Fin a) PInf = True"
| "fl_less _ _ = False"

section \<open>The closed forms of the specification\<close>

text \<open>
  The formulas of the specification, sections 4.2 to 4.4, written over the reals as the
  specification words them. The theorems below compare them with what the functions
  of the source return.
\<close>

definition spec_d1 :: "real \<Rightarrow> real \<Rightarrow> real \<Rightarrow> real \<Rightarrow> real \<Rightarrow> real" where
  "spec_d1 S K r sigma T = (ln (S / K) + (r + 0.5 * sigma\<^sup>2) * T) / (sigma * sqrt T)"

definition spec_d2 :: "real \<Rightarrow> real \<Rightarrow> real \<Rightarrow> real \<Rightarrow> real \<Rightarrow> real" where
  "spec_d2 S K r sigma T = spec_d1 S K r sigma T - sigma * sqrt T"

definition spec_call_price :: "real \<Rightarrow> real \<Rightarrow> real \<Rightarrow> real \<Rightarrow> real \<Rightarrow> real" where
  "spec_call_price S K r sigma T =
     S * std_normal_cdf (spec_d1 S K r sigma T)
     - K * exp (- r * T) * std_normal_cdf (spec_d2 S K r sigma T)"

definition spec_put_price :: "real \<Rightarrow> real \<Rightarrow> real \<Rightarrow> real \<Rightarrow> real \<Rightarrow> real" where
  "spec_put_price S K r sigma T =
     K * exp (- r * T) * std_normal_cdf (- spec_d2 S K r sigma T)
     - S * std_normal_cdf (- spec_d1 S K r sigma T)"

definition spec_greeks_call :: "real \<Rightarrow> real \<Rightarrow> real \<Rightarrow> real \<Rightarrow> real \<Rightarrow> real greeks" where
  "spec_greeks_call S K r sigma T =
     (let d1 = spec_d1 S K r sigma T; d2 = spec_d2 S K r sigma T
      in \<lparr> delta = std_normal_cdf d1,
           gamma = std_normal_pdf d1 / (S * sigma * sqrt T),
           vega = S * std_normal_pdf d1 * sqrt T / 100,
           theta = (- S * std_normal_pdf d1 * sigma / (2 * sqrt T)
                    - r * K * exp (- r * T) * std_normal_cdf d2) / 365,
           rho = K * T * exp (- r * T) * std_normal_cdf d2 / 100 \<rparr>)"

definition spec_greeks_put :: "real \<Rightarrow> real \<Rightarrow> real \<Rightarrow> real \<Rightarrow> real \<Rightarrow> real greeks" where
  "spec_greeks_put S K r sigma T =
     (let d1 = spec_d1 S K r sigma T; d2 = spec_d2 S K r sigma T
      in \<lparr> delta = std_normal_cdf d1 - 1,
           gamma = std_normal_pdf d1 / (S * sigma * sqrt T),
           vega = S * std_normal_pdf d1 * sqrt T / 100,
           theta = (- S * std_normal_pdf d1 * sigma / (2 * sqrt T)
                    + r * K * exp (- r * T) * std_normal_cdf (- d2)) / 365,
           rho = - K * T * exp (- r * T) * std_normal_cdf (- d2) / 100 \<rparr>)"

text \<open>A record of finite values as the record of floats the source returns.\<close>

definition fin_greeks :: "real greeks \<Rightarrow> fl greeks" where
  "fin_greeks g = \<lparr> delta = Fin (delta g), gamma = Fin (gamma g), vega = Fin (vega g),
                    theta = Fin (theta g), rho = Fin (rho g) \<rparr>"

text \<open>
  The magnitudes of the terms of three alternating series: of \<open>arctan\<close>, of the normal
  distribution function and of \<open>exp (- x)\<close>. They serve the numeric bounds only.
\<close>

definition atn :: "real \<Rightarrow> nat \<Rightarrow> real" where
  "atn x k = 1 / real (k * 2 + 1) * x ^ (k * 2 + 1)"

definition cdf_mag :: "real \<Rightarrow> nat \<Rightarrow> real" where
  "cdf_mag x n = x ^ (2 * n + 1) / (2 ^ n * fact n * real (2 * n + 1))"

definition exp_mag :: "real \<Rightarrow> nat \<Rightarrow> real" where
  "exp_mag x n = x ^ n / fact n"

text \<open>
  The ascending linearly spaced sequence of \<open>n\<close> values spanning the interval from \<open>lo\<close> to
  \<open>hi\<close> that section 4.6 of the specification describes.
\<close>

definition lin_seq :: "real \<Rightarrow> real \<Rightarrow> nat \<Rightarrow> real list" where
  "lin_seq lo hi n = map (\<lambda>i. lo + real i * ((hi - lo) / real (n - 1))) [0..<n]"

text \<open>
  The price and the Greeks of one point of the sweep, and the lists the loop collects
  when no point raises.
\<close>

definition price_at :: "params \<Rightarrow> string \<Rightarrow> string \<Rightarrow> fl \<Rightarrow> pyerror + fl" where
  "price_at base vp ot x =
     (let params = set_param base vp x
      in calculate_option_price (prm_S params) (prm_K params) (prm_r params)
           (prm_sigma params) (prm_T params) ot)"

definition greeks_at :: "params \<Rightarrow> string \<Rightarrow> string \<Rightarrow> fl \<Rightarrow> pyerror + fl greeks" where
  "greeks_at base vp ot x =
     (let params = set_param base vp x
      in calculate_greeks (prm_S params) (prm_K params) (prm_r params)
           (prm_sigma params) (prm_T params) ot)"

definition sweep_prices :: "params \<Rightarrow> string \<Rightarrow> string \<Rightarrow> fl list \<Rightarrow> fl list" where
  "sweep_prices base vp ot xv = map (\<lambda>x. projr (price_at base vp ot x)) xv"

definition sweep_greeks :: "params \<Rightarrow> string \<Rightarrow> string \<Rightarrow> fl list \<Rightarrow> fl list greeks" where
  "sweep_greeks base vp ot xv =
     \<lparr> delta = map (\<lambda>x. delta (projr (greeks_at base vp ot x))) xv,
       gamma = map (\<lambda>x. gamma (projr (greeks_at base vp ot x))) xv,
       vega = map (\<lambda>x. vega (projr (greeks_at base vp ot x))) xv,
       theta = map (\<lambda>x. theta (projr (greeks_at base vp ot x))) xv,
       rho = map (\<lambda>x. rho (projr (greeks_at base vp ot x))) xv \<rparr>"

text \<open>
  The output of a sweep is aligned when the list of prices and the five lists of Greeks
  are as long as the list of swept values and entry \<open>i\<close> of each is what the price and
  the Greeks functions return for entry \<open>i\<close> of the swept values.
\<close>

definition sweep_aligned ::
  "(fl \<Rightarrow> pyerror + fl) \<Rightarrow> (fl \<Rightarrow> pyerror + fl greeks) \<Rightarrow> fl list \<times> fl list \<times> fl list greeks
   \<Rightarrow> bool" where
  "sweep_aligned price_of greeks_of res =
     (case res of (x_values, prices, greeks_dict) \<Rightarrow>
        length prices = length x_values
      \<and> length (delta greeks_dict) = length x_values
      \<and> length (gamma greeks_dict) = length x_values
      \<and> length (vega greeks_dict) = length x_values
      \<and> length (theta greeks_dict) = length x_values
      \<and> length (rho greeks_dict) = length x_values
      \<and> (\<forall>i<length x_values.
            price_of (x_values ! i) = Inr (prices ! i)
          \<and> greeks_of (x_values ! i)
              = Inr \<lparr> delta = delta greeks_dict ! i, gamma = gamma greeks_dict ! i,
                      vega = vega greeks_dict ! i, theta = theta greeks_dict ! i,
                      rho = rho greeks_dict ! i \<rparr>))"

section \<open>Float arithmetic on finite values\<close>

lemma minus_fl_Fin [simp]: "Fin a - Fin b = Fin (a - b)"
  by (simp add: minus_fl_def)

section \<open>The standard normal distribution\<close>

lemma abs_cdf_term_le:
  "\<bar>cdf_term x n\<bar> \<le> \<bar>x\<bar> * (inverse (fact n) * (x\<^sup>2 / 2) ^ n)"
proof -
  have "\<bar>cdf_term x n\<bar> = \<bar>x\<bar> * ((x\<^sup>2) ^ n / (2 ^ n * fact n)) / real (2 * n + 1)"
    by (simp add: cdf_term_def abs_mult power_abs power_mult power_even_abs)
  also have "\<dots> \<le> \<bar>x\<bar> * ((x\<^sup>2) ^ n / (2 ^ n * fact n)) / 1"
    by (intro divide_left_mono mult_nonneg_nonneg divide_nonneg_nonneg) simp_all
  also have "\<dots> = \<bar>x\<bar> * (inverse (fact n) * (x\<^sup>2 / 2) ^ n)"
    by (simp add: field_simps)
  finally show ?thesis .
qed

lemma summable_cdf_term: "summable (cdf_term x)"
proof (rule summable_comparison_test)
  show "\<exists>N. \<forall>n\<ge>N. norm (cdf_term x n) \<le> \<bar>x\<bar> * (inverse (fact n) * (x\<^sup>2 / 2) ^ n)"
    using abs_cdf_term_le by auto
  show "summable (\<lambda>n. \<bar>x\<bar> * (inverse (fact n) * (x\<^sup>2 / 2) ^ n))"
    by (intro summable_mult summable_exp)
qed

lemma cdf_term_minus: "cdf_term (- x) n = - cdf_term x n"
proof -
  have "(- x) ^ (2 * n + 1) = - (x ^ (2 * n + 1))"
    by (rule power_minus_odd) simp
  then show ?thesis
    unfolding cdf_term_def by simp
qed

lemma std_normal_cdf_minus: "std_normal_cdf (- x) = 1 - std_normal_cdf x"
proof -
  have "(\<Sum>n. cdf_term (- x) n) = - (\<Sum>n. cdf_term x n)"
    using suminf_minus [OF summable_cdf_term [of x]] by (simp add: cdf_term_minus)
  then show ?thesis
    by (simp add: std_normal_cdf_def)
qed


subsection \<open>Bounds from alternating series\<close>

lemma leibniz_bounds:
  fixes a :: "nat \<Rightarrow> real"
  assumes sm: "summable (\<lambda>n. (- 1) ^ n * a n)"
    and pos: "\<And>n. 0 \<le> a n"
    and mono: "\<And>n. a (Suc n) \<le> a n"
  shows "(\<Sum>i<2 * n. (- 1) ^ i * a i) \<le> (\<Sum>i. (- 1) ^ i * a i)"
    and "(\<Sum>i. (- 1) ^ i * a i) \<le> (\<Sum>i<2 * n + 1. (- 1) ^ i * a i)"
proof -
  have "(\<lambda>n. (- 1) ^ n * a n) \<longlonglongrightarrow> 0"
    by (rule summable_LIMSEQ_zero [OF sm])
  then have "(\<lambda>n. \<bar>(- 1) ^ n * a n\<bar>) \<longlonglongrightarrow> 0"
    by (simp add: tendsto_rabs_zero_iff)
  then have z: "a \<longlonglongrightarrow> 0"
    using pos by (simp add: abs_mult)
  show "(\<Sum>i<2 * n. (- 1) ^ i * a i) \<le> (\<Sum>i. (- 1) ^ i * a i)"
    using summable_Leibniz'(2) [of a n, OF z pos mono] .
  show "(\<Sum>i. (- 1) ^ i * a i) \<le> (\<Sum>i<2 * n + 1. (- 1) ^ i * a i)"
    using summable_Leibniz'(4) [of a n, OF z pos mono] .
qed

lemma atn_mono: 
  assumes "0 \<le> x" "x \<le> 1" shows "atn x (Suc k) \<le> atn x k"
proof -
  have "x ^ (Suc k * 2 + 1) \<le> x ^ (k * 2 + 1)"
    using assms by (intro power_decreasing) simp_all
  moreover have "1 / real (Suc k * 2 + 1) \<le> 1 / real (k * 2 + 1)"
    by (intro divide_left_mono) simp_all
  ultimately show ?thesis
    unfolding atn_def using assms
    by (intro mult_mono) simp_all
qed

lemma arctan_bounds:
  assumes "0 \<le> x" "x \<le> 1"
  shows "(\<Sum>i<2 * n. (- 1) ^ i * atn x i) \<le> arctan x"
    and "arctan x \<le> (\<Sum>i<2 * n + 1. (- 1) ^ i * atn x i)"
proof -
  have ax: "\<bar>x\<bar> \<le> 1" using assms by simp
  have sm: "summable (\<lambda>k. (- 1) ^ k * atn x k)"
    unfolding atn_def by (rule summable_arctan_series [OF ax])
  have eq: "arctan x = (\<Sum>k. (- 1) ^ k * atn x k)"
    unfolding atn_def by (rule arctan_series [OF ax])
  have pos: "\<And>k. 0 \<le> atn x k" using assms by (simp add: atn_def)
  show "(\<Sum>i<2 * n. (- 1) ^ i * atn x i) \<le> arctan x"
    unfolding eq by (rule leibniz_bounds(1) [of "atn x", OF sm pos atn_mono [OF assms]])
  show "arctan x \<le> (\<Sum>i<2 * n + 1. (- 1) ^ i * atn x i)"
    unfolding eq by (rule leibniz_bounds(2) [of "atn x", OF sm pos atn_mono [OF assms]])
qed

lemma sum_lessThan_4: "(\<Sum>i<4. f i) = f 0 + f 1 + f 2 + f 3" for f :: "nat \<Rightarrow> real"
  by (simp add: eval_nat_numeral)

lemma sum_lessThan_5: "(\<Sum>i<5. f i) = f 0 + f 1 + f 2 + f 3 + f 4" for f :: "nat \<Rightarrow> real"
  by (simp add: eval_nat_numeral)

lemma sum_lessThan_2: "(\<Sum>i<2. f i) = f 0 + f 1" for f :: "nat \<Rightarrow> real"
  by (simp add: eval_nat_numeral)

lemma pi_bounds: "314159 / 100000 \<le> pi" "pi \<le> 3141594 / 1000000"
proof -
  have l5: "(\<Sum>i<4. (- 1) ^ i * atn (1 / 5) i) = 323852 / 1640625"
    by (simp add: sum_lessThan_4 atn_def power_divide)
  have u5: "(\<Sum>i<5. (- 1) ^ i * atn (1 / 5) i) = 24288907 / 123046875"
    by (simp add: sum_lessThan_5 atn_def power_divide)
  have l239: "(\<Sum>i<2. (- 1) ^ i * atn (1 / 239) i) = 171362 / 40955757"
    by (simp add: sum_lessThan_2 atn_def power_divide)
  have u239: "(\<Sum>i<1. (- 1) ^ i * atn (1 / 239) i) = 1 / 239"
    by (simp add: atn_def)
  have a: "323852 / 1640625 \<le> arctan (1 / 5)"
    using arctan_bounds(1) [of "1 / 5" 2] by (simp add: l5)
  have b: "arctan (1 / 5) \<le> 24288907 / 123046875"
    using arctan_bounds(2) [of "1 / 5" 2] by (simp add: u5)
  have c: "171362 / 40955757 \<le> arctan (1 / 239)"
    using arctan_bounds(1) [of "1 / 239" 1] by (simp add: l239)
  have d: "arctan (1 / 239) \<le> 1 / 239"
    using arctan_bounds(2) [of "1 / 239" 0] by (simp add: atn_def)
  have m: "pi = 16 * arctan (1 / 5) - 4 * arctan (1 / 239)"
    using machin by simp
  show "314159 / 100000 \<le> pi"
    unfolding m using a d by simp
  show "pi \<le> 3141594 / 1000000"
    unfolding m using b c by simp
qed

lemma sqrt_2pi_bounds: "2506627 / 1000000 \<le> sqrt (2 * pi)" "sqrt (2 * pi) \<le> 2506629 / 1000000"
proof -
  have "(2506627 / 1000000)\<^sup>2 \<le> 2 * pi"
    using pi_bounds(1) by (simp add: power2_eq_square)
  then show "2506627 / 1000000 \<le> sqrt (2 * pi)"
    by (rule real_le_rsqrt)
  have "2 * pi \<le> (2506629 / 1000000)\<^sup>2"
    using pi_bounds(2) by (simp add: power2_eq_square)
  then show "sqrt (2 * pi) \<le> 2506629 / 1000000"
    by (intro real_le_lsqrt) simp_all
qed


lemma cdf_term_mag: "cdf_term x n = (- 1) ^ n * cdf_mag x n"
  by (simp add: cdf_term_def cdf_mag_def)

lemma cdf_mag_mono:
  assumes "0 \<le> x" "x \<le> 1" shows "cdf_mag x (Suc n) \<le> cdf_mag x n"
proof -
  have "x ^ (2 * Suc n + 1) \<le> x ^ (2 * n + 1)"
    using assms by (intro power_decreasing) simp_all
  moreover have "(2::real) ^ n * fact n * real (2 * n + 1)
      \<le> 2 ^ Suc n * fact (Suc n) * real (2 * Suc n + 1)"
    by (intro mult_mono) simp_all
  moreover have "0 < (2::real) ^ n * fact n * real (2 * n + 1)"
    by simp
  ultimately show ?thesis
    unfolding cdf_mag_def using assms by (intro frac_le) simp_all
qed

lemma cdf_series_bounds:
  assumes "0 \<le> x" "x \<le> 1"
  shows "(\<Sum>i<2 * n. cdf_term x i) \<le> (\<Sum>i. cdf_term x i)"
    and "(\<Sum>i. cdf_term x i) \<le> (\<Sum>i<2 * n + 1. cdf_term x i)"
proof -
  have sm: "summable (\<lambda>n. (- 1) ^ n * cdf_mag x n)"
    using summable_cdf_term [of x] by (simp add: cdf_term_mag [abs_def])
  have pos: "\<And>n. 0 \<le> cdf_mag x n"
    using assms by (simp add: cdf_mag_def)
  show "(\<Sum>i<2 * n. cdf_term x i) \<le> (\<Sum>i. cdf_term x i)"
    unfolding cdf_term_mag
    by (rule leibniz_bounds(1) [of "cdf_mag x", OF sm pos cdf_mag_mono [OF assms]])
  show "(\<Sum>i. cdf_term x i) \<le> (\<Sum>i<2 * n + 1. cdf_term x i)"
    unfolding cdf_term_mag
    by (rule leibniz_bounds(2) [of "cdf_mag x", OF sm pos cdf_mag_mono [OF assms]])
qed

lemma fact_3: "fact 3 = (6::real)"
  by (simp add: eval_nat_numeral)

lemma fact_4: "fact 4 = (24::real)"
  by (simp add: eval_nat_numeral)

lemma series_035:
  "7024303237 / 20480000000 \<le> (\<Sum>i. cdf_term (7 / 20) i)"
  "(\<Sum>i. cdf_term (7 / 20) i) \<le> 606899840030407 / 1769472000000000"
proof -
  have l: "(\<Sum>i<4. cdf_term (7 / 20) i) = 7024303237 / 20480000000"
    by (simp add: sum_lessThan_4 cdf_term_def power_divide fact_3)
  have u: "(\<Sum>i<5. cdf_term (7 / 20) i) = 606899840030407 / 1769472000000000"
    by (simp add: sum_lessThan_5 cdf_term_def power_divide fact_3 fact_4)
  show "7024303237 / 20480000000 \<le> (\<Sum>i. cdf_term (7 / 20) i)"
    using cdf_series_bounds(1) [of "7 / 20" 2] by (simp add: l)
  show "(\<Sum>i. cdf_term (7 / 20) i) \<le> 606899840030407 / 1769472000000000"
    using cdf_series_bounds(2) [of "7 / 20" 2] by (simp add: u)
qed

lemma series_015:
  "21423631431 / 143360000000 \<le> (\<Sum>i. cdf_term (3 / 20) i)"
  "(\<Sum>i. cdf_term (3 / 20) i) \<le> 68555620584303 / 458752000000000"
proof -
  have l: "(\<Sum>i<4. cdf_term (3 / 20) i) = 21423631431 / 143360000000"
    by (simp add: sum_lessThan_4 cdf_term_def power_divide fact_3)
  have u: "(\<Sum>i<5. cdf_term (3 / 20) i) = 68555620584303 / 458752000000000"
    by (simp add: sum_lessThan_5 cdf_term_def power_divide fact_3 fact_4)
  show "21423631431 / 143360000000 \<le> (\<Sum>i. cdf_term (3 / 20) i)"
    using cdf_series_bounds(1) [of "3 / 20" 2] by (simp add: l)
  show "(\<Sum>i. cdf_term (3 / 20) i) \<le> 68555620584303 / 458752000000000"
    using cdf_series_bounds(2) [of "3 / 20" 2] by (simp add: u)
qed


lemma cdf_035_bounds:
  "636830 / 1000000 \<le> std_normal_cdf (7 / 20)" "std_normal_cdf (7 / 20) \<le> 636831 / 1000000"
proof -
  let ?s = "\<Sum>i. cdf_term (7 / 20) i"
  have pos: "0 < sqrt (2 * pi)" by simp
  have s0: "0 \<le> ?s" using series_035(1) by simp
  have "(7024303237 / 20480000000) / (2506629 / 1000000) \<le> ?s / sqrt (2 * pi)"
    by (rule frac_le [OF s0 series_035(1) pos sqrt_2pi_bounds(2)])
  then show "636830 / 1000000 \<le> std_normal_cdf (7 / 20)"
    by (simp add: std_normal_cdf_def)
  have "?s / sqrt (2 * pi) \<le> (606899840030407 / 1769472000000000) / (2506627 / 1000000)"
    by (rule frac_le [OF _ series_035(2) _ sqrt_2pi_bounds(1)]) simp_all
  then show "std_normal_cdf (7 / 20) \<le> 636831 / 1000000"
    by (simp add: std_normal_cdf_def)
qed

lemma cdf_015_bounds:
  "559617 / 1000000 \<le> std_normal_cdf (3 / 20)" "std_normal_cdf (3 / 20) \<le> 559618 / 1000000"
proof -
  let ?s = "\<Sum>i. cdf_term (3 / 20) i"
  have pos: "0 < sqrt (2 * pi)" by simp
  have s0: "0 \<le> ?s" using series_015(1) by simp
  have "(21423631431 / 143360000000) / (2506629 / 1000000) \<le> ?s / sqrt (2 * pi)"
    by (rule frac_le [OF s0 series_015(1) pos sqrt_2pi_bounds(2)])
  then show "559617 / 1000000 \<le> std_normal_cdf (3 / 20)"
    by (simp add: std_normal_cdf_def)
  have "?s / sqrt (2 * pi) \<le> (68555620584303 / 458752000000000) / (2506627 / 1000000)"
    by (rule frac_le [OF _ series_015(2) _ sqrt_2pi_bounds(1)]) simp_all
  then show "std_normal_cdf (3 / 20) \<le> 559618 / 1000000"
    by (simp add: std_normal_cdf_def)
qed

lemma exp_minus_term: "(- x) ^ n /\<^sub>R fact n = (- 1) ^ n * exp_mag x n" for x :: real
proof -
  have "(- x) ^ n = (- 1) ^ n * x ^ n" by (rule power_minus)
  then show ?thesis by (simp add: exp_mag_def divide_inverse mult.commute)
qed

lemma exp_minus_series: "exp (- x) = (\<Sum>n. (- 1) ^ n * exp_mag x n)"
  unfolding exp_def exp_minus_term ..

lemma summable_exp_minus: "summable (\<lambda>n. (- 1) ^ n * exp_mag x n)"
  using summable_exp_generic [of "- x"] unfolding exp_minus_term .

lemma exp_mag_mono:
  assumes "0 \<le> x" "x \<le> 1" shows "exp_mag x (Suc n) \<le> exp_mag x n"
proof -
  have "x ^ Suc n \<le> x ^ n"
    using assms by (intro power_decreasing) simp_all
  moreover have "(fact n :: real) \<le> fact (Suc n)"
    by (rule fact_mono) simp
  ultimately show ?thesis
    unfolding exp_mag_def using assms by (intro frac_le) simp_all
qed

lemma exp_minus_bounds:
  assumes "0 \<le> x" "x \<le> 1"
  shows "(\<Sum>i<2 * n. (- 1) ^ i * exp_mag x i) \<le> exp (- x)"
    and "exp (- x) \<le> (\<Sum>i<2 * n + 1. (- 1) ^ i * exp_mag x i)"
proof -
  have pos: "\<And>n. 0 \<le> exp_mag x n"
    using assms by (simp add: exp_mag_def)
  show "(\<Sum>i<2 * n. (- 1) ^ i * exp_mag x i) \<le> exp (- x)"
    unfolding exp_minus_series
    by (rule leibniz_bounds(1) [of "exp_mag x", OF summable_exp_minus pos exp_mag_mono [OF assms]])
  show "exp (- x) \<le> (\<Sum>i<2 * n + 1. (- 1) ^ i * exp_mag x i)"
    unfolding exp_minus_series
    by (rule leibniz_bounds(2) [of "exp_mag x", OF summable_exp_minus pos exp_mag_mono [OF assms]])
qed

lemma exp_005_bounds:
  "951229 / 1000000 \<le> exp (- (1 / 20) :: real)" "exp (- (1 / 20) :: real) \<le> 951230 / 1000000"
proof -
  have l: "(\<Sum>i<4. (- 1) ^ i * exp_mag (1 / 20) i) = 45659 / 48000"
    by (simp add: sum_lessThan_4 exp_mag_def power_divide fact_3)
  have u: "(\<Sum>i<5. (- 1) ^ i * exp_mag (1 / 20) i) = 3652721 / 3840000"
    by (simp add: sum_lessThan_5 exp_mag_def power_divide fact_3 fact_4)
  show "951229 / 1000000 \<le> exp (- (1 / 20) :: real)"
    using exp_minus_bounds(1) [of "1 / 20" 2] by (simp add: l)
  show "exp (- (1 / 20) :: real) \<le> 951230 / 1000000"
    using exp_minus_bounds(2) [of "1 / 20" 2] by (simp add: u)
qed

lemma scenario_bounds:
  fixes E P1 P2 :: real
  assumes "951229 / 1000000 \<le> E" "E \<le> 951230 / 1000000"
    and "636830 / 1000000 \<le> P1" "P1 \<le> 636831 / 1000000"
    and "559617 / 1000000 \<le> P2" "P2 \<le> 559618 / 1000000"
  shows "\<bar>100 * P1 - 100 * (E * P2) - 104506 / 10000\<bar> \<le> 1 / 1000"
proof -
  have "E * P2 \<le> (951230 / 1000000) * (559618 / 1000000)"
    using assms by (intro mult_mono) simp_all
  moreover have "(951229 / 1000000) * (559617 / 1000000) \<le> E * P2"
    using assms by (intro mult_mono) simp_all
  ultimately show ?thesis
    using assms(3,4) by linarith
qed


section \<open>Valid inputs\<close>

lemma truediv_valid:
  "val s = Fin S \<Longrightarrow> val k = Fin K \<Longrightarrow> K \<noteq> 0 \<Longrightarrow> truediv s k = Inr (Fin (S / K))"
  by (cases s; cases k) simp_all

lemma d1_d2_valid:
  assumes "val s = Fin S" "val k = Fin K" "0 < S" "0 < K" "0 < sigma" "0 < T"
  shows "calculate_d1_d2 s k (Fin r) (Fin sigma) (Fin T)
         = Inr (Fin (spec_d1 S K r sigma T), Fin (spec_d2 S K r sigma T))"
proof -
  have q: "truediv s k = Inr (Fin (S / K))"
    using assms by (simp add: truediv_valid)
  have "0 < S / K" using assms by simp
  moreover have "sigma * sqrt T \<noteq> 0" using assms by simp
  ultimately show ?thesis
    using assms by (simp add: calculate_d1_d2_def q spec_d1_def spec_d2_def Let_def)
qed

lemma lower_call: "lower ''call'' = ''call''"
  by code_simp

lemma lower_put: "lower ''put'' \<noteq> ''call''"
  by code_simp

lemma price_call_valid:
  assumes "val s = Fin S" "val k = Fin K" "0 < S" "0 < K" "0 < sigma" "0 < T"
  shows "calculate_option_price s k (Fin r) (Fin sigma) (Fin T) ''call''
         = Inr (Fin (spec_call_price S K r sigma T))"
  using assms(1,2)
  by (simp add: calculate_option_price_def d1_d2_valid [OF assms] spec_call_price_def lower_call)

lemma price_put_valid:
  assumes "val s = Fin S" "val k = Fin K" "0 < S" "0 < K" "0 < sigma" "0 < T"
  shows "calculate_option_price s k (Fin r) (Fin sigma) (Fin T) ''put''
         = Inr (Fin (spec_put_price S K r sigma T))"
  using assms(1,2)
  by (simp add: calculate_option_price_def d1_d2_valid [OF assms] spec_put_price_def lower_put)

lemma greeks_call_valid:
  assumes "val s = Fin S" "val k = Fin K" "0 < S" "0 < K" "0 < sigma" "0 < T"
  shows "calculate_greeks s k (Fin r) (Fin sigma) (Fin T) ''call''
         = Inr (fin_greeks (spec_greeks_call S K r sigma T))"
proof -
  have nz: "S * sigma * sqrt T \<noteq> 0" "2 * sqrt T \<noteq> 0" "0 \<le> T"
    using assms by simp_all
  show ?thesis
    using assms(1,2) nz
    by (simp add: calculate_greeks_def d1_d2_valid [OF assms] spec_greeks_call_def
        fin_greeks_def Let_def lower_call)
qed

lemma greeks_put_valid:
  assumes "val s = Fin S" "val k = Fin K" "0 < S" "0 < K" "0 < sigma" "0 < T"
  shows "calculate_greeks s k (Fin r) (Fin sigma) (Fin T) ''put''
         = Inr (fin_greeks (spec_greeks_put S K r sigma T))"
proof -
  have nz: "S * sigma * sqrt T \<noteq> 0" "2 * sqrt T \<noteq> 0" "0 \<le> T"
    using assms by simp_all
  show ?thesis
    using assms(1,2) nz
    by (simp add: calculate_greeks_def d1_d2_valid [OF assms] spec_greeks_put_def
        fin_greeks_def Let_def lower_put)
qed

lemma scenario_d1: "spec_d1 100 100 (5 / 100) (20 / 100) 1 = 7 / 20"
  unfolding spec_d1_def by (simp add: power2_eq_square)

lemma scenario_d2: "spec_d2 100 100 (5 / 100) (20 / 100) 1 = 3 / 20"
  unfolding spec_d2_def scenario_d1 by simp

lemma scenario_call_price:
  "\<bar>spec_call_price 100 100 (5 / 100) (20 / 100) 1 - 104506 / 10000\<bar> \<le> 1 / 1000"
proof -
  have "spec_call_price 100 100 (5 / 100) (20 / 100) 1
        = 100 * std_normal_cdf (7 / 20) - 100 * (exp (- (1 / 20)) * std_normal_cdf (3 / 20))"
    unfolding spec_call_price_def scenario_d1 scenario_d2 by simp
  then show ?thesis
    using scenario_bounds [OF exp_005_bounds cdf_035_bounds cdf_015_bounds] by simp
qed

section \<open>Exceptions of the price and the Greeks\<close>

lemma d1_d2_error: "isl (calculate_d1_d2 S K r sigma T) = isl (truediv S K)"
  by (cases "truediv S K") (simp_all add: calculate_d1_d2_def Let_def)

lemma price_error: "isl (calculate_option_price S K r sigma T ot) = isl (truediv S K)"
proof (cases "calculate_d1_d2 S K r sigma T")
  case (Inl e)
  then show ?thesis
    using d1_d2_error [of S K r sigma T] by (simp add: calculate_option_price_def)
next
  case (Inr d)
  then show ?thesis
    using d1_d2_error [of S K r sigma T]
    by (cases d) (simp add: calculate_option_price_def)
qed

lemma greeks_error: "isl (calculate_greeks S K r sigma T ot) = isl (truediv S K)"
proof (cases "calculate_d1_d2 S K r sigma T")
  case (Inl e)
  then show ?thesis
    using d1_d2_error [of S K r sigma T] by (simp add: calculate_greeks_def)
next
  case (Inr d)
  then show ?thesis
    using d1_d2_error [of S K r sigma T]
    by (cases d) (simp add: calculate_greeks_def Let_def)
qed

lemma price_dispatch:
  "calculate_option_price S K r sigma T ot
   = calculate_option_price S K r sigma T (if lower ot = ''call'' then ''call'' else ''put'')"
proof (cases "calculate_d1_d2 S K r sigma T")
  case (Inl e)
  then show ?thesis by (simp add: calculate_option_price_def)
next
  case (Inr d)
  then show ?thesis
    by (cases d) (simp add: calculate_option_price_def lower_call lower_put)
qed

lemma greeks_dispatch:
  "calculate_greeks S K r sigma T ot
   = calculate_greeks S K r sigma T (if lower ot = ''call'' then ''call'' else ''put'')"
proof (cases "calculate_d1_d2 S K r sigma T")
  case (Inl e)
  then show ?thesis by (simp add: calculate_greeks_def)
next
  case (Inr d)
  then show ?thesis
    by (cases d) (simp add: calculate_greeks_def Let_def lower_call lower_put)
qed

section \<open>The sweep\<close>

lemma linspace_error: "isl (linspace a b N) = (N < 0)"
  by (simp add: linspace_def Let_def)

lemma linspace_length: "linspace a b N = Inr xs \<Longrightarrow> length xs = nat N"
  by (auto simp: linspace_def Let_def split: if_splits)

lemma linspace_finite:
  assumes "0 \<le> N"
  shows "linspace (Fin a) (Fin b) N = Inr (map Fin (lin_seq a b (nat N)))"
proof -
  consider "N = 0" | "N = 1" | "2 \<le> N" using assms by linarith
  then show ?thesis
  proof cases
    case 1
    then show ?thesis by (simp add: linspace_def lin_seq_def)
  next
    case 2
    then show ?thesis by (simp add: linspace_def lin_seq_def Let_def)
  next
    case 3
    define n where "n = nat N"
    define d where "d = real_of_int (N - 1)"
    have d: "0 < d" "d = real (n - 1)" "d \<noteq> 0"
      using 3 by (simp_all add: d_def n_def)
    have n: "2 \<le> n" using 3 by (simp add: n_def)
    have dN: "real_of_int N - 1 = d" by (simp add: d_def)
    have "linspace (Fin a) (Fin b) N
          = Inr ((map (\<lambda>i. Fin (real i * ((b - a) / d) + a)) [0..<n])[n - 1 := Fin b])"
      using 3 d(3) by (simp add: linspace_def Let_def dN n_def [symmetric] comp_def)
    also have "(map (\<lambda>i. Fin (real i * ((b - a) / d) + a)) [0..<n])[n - 1 := Fin b]
               = map Fin (lin_seq a b n)"
    proof (rule nth_equalityI)
      show "length ((map (\<lambda>i. Fin (real i * ((b - a) / d) + a)) [0..<n])[n - 1 := Fin b])
            = length (map Fin (lin_seq a b n))"
        by (simp add: lin_seq_def)
    next
      fix i
      assume "i < length ((map (\<lambda>i. Fin (real i * ((b - a) / d) + a)) [0..<n])[n - 1 := Fin b])"
      then have i: "i < n" by simp
      show "(map (\<lambda>i. Fin (real i * ((b - a) / d) + a)) [0..<n])[n - 1 := Fin b] ! i
            = map Fin (lin_seq a b n) ! i"
      proof (cases "i = n - 1")
        case True
        then show ?thesis
          using i d by (simp add: lin_seq_def)
      next
        case False
        then show ?thesis
          using i d by (simp add: lin_seq_def nth_list_update)
      qed
    qed
    finally show ?thesis by (simp add: n_def)
  qed
qed

lemma greeks_at_error: "isl (greeks_at base vp ot x) = isl (price_at base vp ot x)"
  by (simp add: greeks_at_def price_at_def Let_def price_error greeks_error)

lemma sweep_loop_map:
  assumes "\<forall>x\<in>set xs. \<not> isl (price_at base vp ot x)"
  shows "sweep_loop base vp ot xs (ps, gd)
         = Inr (ps @ map (\<lambda>x. projr (price_at base vp ot x)) xs,
                \<lparr> delta = delta gd @ map (\<lambda>x. delta (projr (greeks_at base vp ot x))) xs,
                  gamma = gamma gd @ map (\<lambda>x. gamma (projr (greeks_at base vp ot x))) xs,
                  vega = vega gd @ map (\<lambda>x. vega (projr (greeks_at base vp ot x))) xs,
                  theta = theta gd @ map (\<lambda>x. theta (projr (greeks_at base vp ot x))) xs,
                  rho = rho gd @ map (\<lambda>x. rho (projr (greeks_at base vp ot x))) xs \<rparr>)"
  using assms
proof (induction xs arbitrary: ps gd)
  case Nil
  then show ?case by simp
next
  case (Cons x xs)
  from Cons.prems have p: "\<not> isl (price_at base vp ot x)" by simp
  then have g: "\<not> isl (greeks_at base vp ot x)" by (simp add: greeks_at_error)
  from p obtain pr where pr: "price_at base vp ot x = Inr pr" by (cases "price_at base vp ot x") auto
  from g obtain gr where gr: "greeks_at base vp ot x = Inr gr" by (cases "greeks_at base vp ot x") auto
  have rest: "\<forall>x\<in>set xs. \<not> isl (price_at base vp ot x)" using Cons.prems by simp
  note pr' = pr [unfolded price_at_def Let_def] and gr' = gr [unfolded greeks_at_def Let_def]
  show ?case
    by (simp add: Let_def pr' gr' pr gr Cons.IH [OF rest])
qed


lemma sweep_loop_run:
  assumes "\<forall>x\<in>set xv. \<not> isl (price_at base vp ot x)"
  shows "sweep_loop base vp ot xv ([], \<lparr> delta = [], gamma = [], vega = [], theta = [], rho = [] \<rparr>)
         = Inr (sweep_prices base vp ot xv, sweep_greeks base vp ot xv)"
  using sweep_loop_map [OF assms, of "[]" "\<lparr> delta = [], gamma = [], vega = [], theta = [], rho = [] \<rparr>"]
  by (simp add: sweep_prices_def sweep_greeks_def)

lemma truediv_np_left: "\<not> isl (truediv (NpFloat x) K)"
  by simp

lemma truediv_np_right: "\<not> isl (truediv S (NpFloat x))"
  by (cases S) simp_all

lemma generate_spot:
  assumes "linspace (val S * (Fin 1 - rp)) (val S * (Fin 1 + rp)) N = Inr xv"
  shows "generate_sensitivity_data S K r sigma T ot ''spot'' rp N
         = Inr (xv, sweep_prices \<lparr> prm_S = S, prm_K = K, prm_r = r, prm_sigma = sigma, prm_T = T \<rparr> ''S'' ot xv,
                sweep_greeks \<lparr> prm_S = S, prm_K = K, prm_r = r, prm_sigma = sigma, prm_T = T \<rparr> ''S'' ot xv)"
proof -
  have "\<forall>x\<in>set xv. \<not> isl (price_at \<lparr> prm_S = S, prm_K = K, prm_r = r, prm_sigma = sigma, prm_T = T \<rparr> ''S'' ot x)"
    by (simp add: price_at_def set_param_def price_error)
  from sweep_loop_run [OF this] show ?thesis
    by (simp add: generate_sensitivity_data_def assms)
qed

lemma generate_strike:
  assumes "linspace (val K * (Fin 1 - rp)) (val K * (Fin 1 + rp)) N = Inr xv"
  shows "generate_sensitivity_data S K r sigma T ot ''strike'' rp N
         = Inr (xv, sweep_prices \<lparr> prm_S = S, prm_K = K, prm_r = r, prm_sigma = sigma, prm_T = T \<rparr> ''K'' ot xv,
                sweep_greeks \<lparr> prm_S = S, prm_K = K, prm_r = r, prm_sigma = sigma, prm_T = T \<rparr> ''K'' ot xv)"
proof -
  have "\<forall>x\<in>set xv. \<not> isl (price_at \<lparr> prm_S = S, prm_K = K, prm_r = r, prm_sigma = sigma, prm_T = T \<rparr> ''K'' ot x)"
    by (simp add: price_at_def set_param_def price_error truediv_np_right)
  from sweep_loop_run [OF this] show ?thesis
    by (simp add: generate_sensitivity_data_def assms)
qed

lemma generate_volatility:
  assumes "linspace (sigma * Fin (5 / 10)) (sigma * Fin (15 / 10)) N = Inr xv"
    and "\<not> isl (truediv S K)"
  shows "generate_sensitivity_data S K r sigma T ot ''volatility'' rp N
         = Inr (xv, sweep_prices \<lparr> prm_S = S, prm_K = K, prm_r = r, prm_sigma = sigma, prm_T = T \<rparr> ''sigma'' ot xv,
                sweep_greeks \<lparr> prm_S = S, prm_K = K, prm_r = r, prm_sigma = sigma, prm_T = T \<rparr> ''sigma'' ot xv)"
proof -
  have "\<forall>x\<in>set xv. \<not> isl (price_at \<lparr> prm_S = S, prm_K = K, prm_r = r, prm_sigma = sigma, prm_T = T \<rparr> ''sigma'' ot x)"
    using assms(2) by (simp add: price_at_def set_param_def price_error)
  from sweep_loop_run [OF this] assms(1) show ?thesis
    by (simp add: generate_sensitivity_data_def)
qed

lemma generate_time:
  assumes "linspace (Fin (1 / 100)) T N = Inr xv"
    and "\<not> isl (truediv S K)"
  shows "generate_sensitivity_data S K r sigma T ot ''time'' rp N
         = Inr (xv, sweep_prices \<lparr> prm_S = S, prm_K = K, prm_r = r, prm_sigma = sigma, prm_T = T \<rparr> ''T'' ot xv,
                sweep_greeks \<lparr> prm_S = S, prm_K = K, prm_r = r, prm_sigma = sigma, prm_T = T \<rparr> ''T'' ot xv)"
proof -
  have "\<forall>x\<in>set xv. \<not> isl (price_at \<lparr> prm_S = S, prm_K = K, prm_r = r, prm_sigma = sigma, prm_T = T \<rparr> ''T'' ot x)"
    using assms(2) by (simp add: price_at_def set_param_def price_error)
  from sweep_loop_run [OF this] show ?thesis
    by (simp add: generate_sensitivity_data_def assms)
qed

lemma generate_unknown:
  assumes "param \<notin> {''spot'', ''strike'', ''volatility'', ''time''}"
  shows "generate_sensitivity_data S K r sigma T ot param rp N = Inl UnboundLocalError"
  using assms by (simp add: generate_sensitivity_data_def)



section \<open>Historical volatility\<close>

lemma hist_vol_no_returns:
  assumes "dropna (pct_change price_data) = []"
  shows "calculate_historical_volatility price_data window
         = (if window < 0 then Inl ValueError else Inr (Fin (2 / 10)))"
  using assms by (simp add: calculate_historical_volatility_def rolling_std_def)

lemma returns_empty: "dropna (pct_change []) = []"
  by (simp add: pct_change_def dropna_def)

lemma returns_single: "dropna (pct_change [p]) = []"
  by (simp add: pct_change_def dropna_def)

lemma returns_pair: "dropna (pct_change [100, 101]) = [Fin (1 / 100)]"
  by (simp add: pct_change_def dropna_def)

lemma hist_vol_pair: "calculate_historical_volatility [100, 101] 30 = Inr NaN"
  by (simp add: calculate_historical_volatility_def returns_pair rolling_std_def)

section \<open>Linearly spaced sequences\<close>

lemma lin_seq_length: "length (lin_seq lo hi n) = n"
  by (simp add: lin_seq_def)

lemma lin_seq_nth: "i < n \<Longrightarrow> lin_seq lo hi n ! i = lo + real i * ((hi - lo) / real (n - 1))"
  by (simp add: lin_seq_def)

lemma lin_seq_hd:
  assumes "1 \<le> n" shows "hd (lin_seq lo hi n) = lo"
proof -
  have "lin_seq lo hi n \<noteq> []"
    using assms lin_seq_length [of lo hi n] by auto
  then have "hd (lin_seq lo hi n) = lin_seq lo hi n ! 0"
    by (rule hd_conv_nth)
  then show ?thesis
    using assms by (simp add: lin_seq_nth)
qed

lemma lin_seq_last:
  assumes "2 \<le> n" shows "last (lin_seq lo hi n) = hi"
proof -
  have "lin_seq lo hi n \<noteq> []"
    using assms lin_seq_length [of lo hi n] by auto
  then have "last (lin_seq lo hi n) = lin_seq lo hi n ! (n - 1)"
    by (simp add: last_conv_nth lin_seq_length)
  then show ?thesis
    using assms by (simp add: lin_seq_nth)
qed

lemma lin_seq_sorted: "lo \<le> hi \<Longrightarrow> sorted (lin_seq lo hi n)"
proof -
  assume le: "lo \<le> hi"
  have "lin_seq lo hi n ! i \<le> lin_seq lo hi n ! j" if "i \<le> j" "j < n" for i j
  proof -
    have "real i * ((hi - lo) / real (n - 1)) \<le> real j * ((hi - lo) / real (n - 1))"
      using that le by (intro mult_right_mono) simp_all
    then show ?thesis using that by (simp add: lin_seq_nth)
  qed
  then show ?thesis
    by (simp add: sorted_iff_nth_mono lin_seq_length)
qed

lemma lin_seq_strict:
  assumes "2 \<le> n"
  shows "sorted_wrt (<) (lin_seq lo hi n) \<longleftrightarrow> lo < hi"
proof
  assume s: "sorted_wrt (<) (lin_seq lo hi n)"
  have "lin_seq lo hi n ! 0 < lin_seq lo hi n ! (n - 1)"
    using s assms by (simp add: sorted_wrt_iff_nth_less lin_seq_length)
  then show "lo < hi"
    using assms by (simp add: lin_seq_nth)
next
  assume lt: "lo < hi"
  have "lin_seq lo hi n ! i < lin_seq lo hi n ! j" if "i < j" "j < n" for i j
  proof -
    have "0 < (hi - lo) / real (n - 1)" using lt assms by simp
    then have "real i * ((hi - lo) / real (n - 1)) < real j * ((hi - lo) / real (n - 1))"
      using that by (intro mult_strict_right_mono) simp_all
    then show ?thesis using that by (simp add: lin_seq_nth)
  qed
  then show "sorted_wrt (<) (lin_seq lo hi n)"
    by (simp add: sorted_wrt_iff_nth_less lin_seq_length)
qed

lemma sorted_wrt_fl_less_Fin: "sorted_wrt fl_less (map Fin xs) \<longleftrightarrow> sorted_wrt (<) xs"
  by (simp add: sorted_wrt_map)



section \<open>Running the sweep\<close>

lemma greeks_eta:
  "\<lparr> delta = delta g, gamma = gamma g, vega = vega g, theta = theta g, rho = rho g \<rparr> = g"
  for g :: "'a greeks"
  by (cases g) simp

lemma sweep_aligned_run:
  assumes "\<forall>x\<in>set xv. \<not> isl (price_at base vp ot x)"
  shows "sweep_aligned (price_at base vp ot) (greeks_at base vp ot)
           (xv, sweep_prices base vp ot xv, sweep_greeks base vp ot xv)"
proof -
  have "price_at base vp ot (xv ! i) = Inr (projr (price_at base vp ot (xv ! i)))"
    and "greeks_at base vp ot (xv ! i) = Inr (projr (greeks_at base vp ot (xv ! i)))"
    if "i < length xv" for i
  proof -
    have p: "\<not> isl (price_at base vp ot (xv ! i))"
      using assms that by simp
    then show "price_at base vp ot (xv ! i) = Inr (projr (price_at base vp ot (xv ! i)))"
      by (cases "price_at base vp ot (xv ! i)") simp_all
    from p have "\<not> isl (greeks_at base vp ot (xv ! i))"
      by (simp add: greeks_at_error)
    then show "greeks_at base vp ot (xv ! i) = Inr (projr (greeks_at base vp ot (xv ! i)))"
      by (cases "greeks_at base vp ot (xv ! i)") simp_all
  qed
  then show ?thesis
    by (simp add: sweep_aligned_def sweep_prices_def sweep_greeks_def greeks_eta)
qed

lemma price_at_S:
  "price_at \<lparr> prm_S = S, prm_K = K, prm_r = r, prm_sigma = sigma, prm_T = T \<rparr> ''S'' ot
   = (\<lambda>x. calculate_option_price (NpFloat x) K r sigma T ot)"
  "greeks_at \<lparr> prm_S = S, prm_K = K, prm_r = r, prm_sigma = sigma, prm_T = T \<rparr> ''S'' ot
   = (\<lambda>x. calculate_greeks (NpFloat x) K r sigma T ot)"
  by (simp_all add: price_at_def greeks_at_def set_param_def fun_eq_iff)

lemma price_at_K:
  "price_at \<lparr> prm_S = S, prm_K = K, prm_r = r, prm_sigma = sigma, prm_T = T \<rparr> ''K'' ot
   = (\<lambda>x. calculate_option_price S (NpFloat x) r sigma T ot)"
  "greeks_at \<lparr> prm_S = S, prm_K = K, prm_r = r, prm_sigma = sigma, prm_T = T \<rparr> ''K'' ot
   = (\<lambda>x. calculate_greeks S (NpFloat x) r sigma T ot)"
  by (simp_all add: price_at_def greeks_at_def set_param_def fun_eq_iff)

lemma price_at_sigma:
  "price_at \<lparr> prm_S = S, prm_K = K, prm_r = r, prm_sigma = sigma, prm_T = T \<rparr> ''sigma'' ot
   = (\<lambda>x. calculate_option_price S K r x T ot)"
  "greeks_at \<lparr> prm_S = S, prm_K = K, prm_r = r, prm_sigma = sigma, prm_T = T \<rparr> ''sigma'' ot
   = (\<lambda>x. calculate_greeks S K r x T ot)"
  by (simp_all add: price_at_def greeks_at_def set_param_def fun_eq_iff)

lemma price_at_T:
  "price_at \<lparr> prm_S = S, prm_K = K, prm_r = r, prm_sigma = sigma, prm_T = T \<rparr> ''T'' ot
   = (\<lambda>x. calculate_option_price S K r sigma x ot)"
  "greeks_at \<lparr> prm_S = S, prm_K = K, prm_r = r, prm_sigma = sigma, prm_T = T \<rparr> ''T'' ot
   = (\<lambda>x. calculate_greeks S K r sigma x ot)"
  by (simp_all add: price_at_def greeks_at_def set_param_def fun_eq_iff)

lemma linspace_total: "0 \<le> N \<Longrightarrow> \<exists>xv. linspace a b N = Inr xv \<and> length xv = nat N"
  by (cases "linspace a b N") (use linspace_error [of a b N] linspace_length in auto)

lemma spot_run:
  assumes "0 \<le> N"
  shows "\<exists>xv prices gd.
           linspace (val S * (Fin 1 - rp)) (val S * (Fin 1 + rp)) N = Inr xv
         \<and> generate_sensitivity_data S K r sigma T ot ''spot'' rp N = Inr (xv, prices, gd)
         \<and> length xv = nat N
         \<and> sweep_aligned (\<lambda>x. calculate_option_price (NpFloat x) K r sigma T ot)
             (\<lambda>x. calculate_greeks (NpFloat x) K r sigma T ot) (xv, prices, gd)"
proof -
  let ?base = "\<lparr> prm_S = S, prm_K = K, prm_r = r, prm_sigma = sigma, prm_T = T \<rparr>"
  from linspace_total [OF assms] obtain xv
    where xv: "linspace (val S * (Fin 1 - rp)) (val S * (Fin 1 + rp)) N = Inr xv"
      and len: "length xv = nat N" by blast
  have ok: "\<forall>x\<in>set xv. \<not> isl (price_at ?base ''S'' ot x)"
    by (simp add: price_at_S price_error)
  from sweep_aligned_run [OF ok] generate_spot [OF xv] xv len show ?thesis
    unfolding price_at_S by blast
qed

lemma strike_run:
  assumes "0 \<le> N"
  shows "\<exists>xv prices gd.
           linspace (val K * (Fin 1 - rp)) (val K * (Fin 1 + rp)) N = Inr xv
         \<and> generate_sensitivity_data S K r sigma T ot ''strike'' rp N = Inr (xv, prices, gd)
         \<and> length xv = nat N
         \<and> sweep_aligned (\<lambda>x. calculate_option_price S (NpFloat x) r sigma T ot)
             (\<lambda>x. calculate_greeks S (NpFloat x) r sigma T ot) (xv, prices, gd)"
proof -
  let ?base = "\<lparr> prm_S = S, prm_K = K, prm_r = r, prm_sigma = sigma, prm_T = T \<rparr>"
  from linspace_total [OF assms] obtain xv
    where xv: "linspace (val K * (Fin 1 - rp)) (val K * (Fin 1 + rp)) N = Inr xv"
      and len: "length xv = nat N" by blast
  have ok: "\<forall>x\<in>set xv. \<not> isl (price_at ?base ''K'' ot x)"
    by (simp add: price_at_K price_error truediv_np_right)
  from sweep_aligned_run [OF ok] generate_strike [OF xv] xv len show ?thesis
    unfolding price_at_K by blast
qed

lemma volatility_run:
  assumes "0 \<le> N" "\<not> isl (truediv S K)"
  shows "\<exists>xv prices gd.
           linspace (sigma * Fin (5 / 10)) (sigma * Fin (15 / 10)) N = Inr xv
         \<and> generate_sensitivity_data S K r sigma T ot ''volatility'' rp N = Inr (xv, prices, gd)
         \<and> length xv = nat N
         \<and> sweep_aligned (\<lambda>x. calculate_option_price S K r x T ot)
             (\<lambda>x. calculate_greeks S K r x T ot) (xv, prices, gd)"
proof -
  let ?base = "\<lparr> prm_S = S, prm_K = K, prm_r = r, prm_sigma = sigma, prm_T = T \<rparr>"
  from linspace_total [OF assms(1)] obtain xv
    where xv: "linspace (sigma * Fin (5 / 10)) (sigma * Fin (15 / 10)) N = Inr xv"
      and len: "length xv = nat N" by blast
  have ok: "\<forall>x\<in>set xv. \<not> isl (price_at ?base ''sigma'' ot x)"
    using assms(2) by (simp add: price_at_sigma price_error)
  from sweep_aligned_run [OF ok] generate_volatility [OF xv assms(2)] xv len show ?thesis
    unfolding price_at_sigma by blast
qed

lemma time_run:
  assumes "0 \<le> N" "\<not> isl (truediv S K)"
  shows "\<exists>xv prices gd.
           linspace (Fin (1 / 100)) T N = Inr xv
         \<and> generate_sensitivity_data S K r sigma T ot ''time'' rp N = Inr (xv, prices, gd)
         \<and> length xv = nat N
         \<and> sweep_aligned (\<lambda>x. calculate_option_price S K r sigma x ot)
             (\<lambda>x. calculate_greeks S K r sigma x ot) (xv, prices, gd)"
proof -
  let ?base = "\<lparr> prm_S = S, prm_K = K, prm_r = r, prm_sigma = sigma, prm_T = T \<rparr>"
  from linspace_total [OF assms(1)] obtain xv
    where xv: "linspace (Fin (1 / 100)) T N = Inr xv"
      and len: "length xv = nat N" by blast
  have ok: "\<forall>x\<in>set xv. \<not> isl (price_at ?base ''T'' ot x)"
    using assms(2) by (simp add: price_at_T price_error)
  from sweep_aligned_run [OF ok] generate_time [OF xv assms(2)] xv len show ?thesis
    unfolding price_at_T by blast
qed


lemma linspace_ascending:
  assumes "2 \<le> N" "linspace (Fin a) (Fin b) N = Inr xv"
  shows "sorted_wrt fl_less xv \<longleftrightarrow> a < b"
proof -
  have "xv = map Fin (lin_seq a b (nat N))"
    using assms linspace_finite [of N a b] by simp
  moreover have "2 \<le> nat N" using assms(1) by simp
  ultimately show ?thesis
    by (simp add: sorted_wrt_fl_less_Fin lin_seq_strict)
qed

lemma spread_less: "a * (1 - p) < a * (1 + p) \<longleftrightarrow> 0 < a * p" for a p :: real
  by (simp add: algebra_simps)

lemma upt_3: "[0..<3] = [0, 1, 2]"
  by code_simp

lemma lin_seq_3: "lin_seq lo hi 3 = [lo, lo + (hi - lo) / 2, hi]"
  by (simp add: lin_seq_def upt_3 field_simps)

lemma sweep_time_short:
  "map_sum id fst
     (generate_sensitivity_data (PyFloat (Fin 100)) (PyFloat (Fin 100)) (Fin (5 / 100))
        (Fin (20 / 100)) (Fin (1 / 10000)) ''call'' ''time'' (Fin (20 / 100)) 3)
   = Inr [Fin (1 / 100), Fin (101 / 20000), Fin (1 / 10000)]"
proof -
  have ok: "\<not> isl (truediv (PyFloat (Fin 100)) (PyFloat (Fin 100)))" by simp
  have lin: "linspace (Fin (1 / 100)) (Fin (1 / 10000)) 3
             = Inr [Fin (1 / 100), Fin (101 / 20000), Fin (1 / 10000)]"
    using linspace_finite [of 3 "1 / 100" "1 / 10000"] by (simp add: lin_seq_3)
  show ?thesis
    using generate_time [OF lin ok, where r = "Fin (5 / 100)" and sigma = "Fin (20 / 100)"
        and ot = "''call''" and rp = "Fin (20 / 100)"]
    by simp
qed

lemma sweep_volatility_three:
  "map_sum id fst
     (generate_sensitivity_data (PyFloat (Fin 100)) (PyFloat (Fin 100)) (Fin (5 / 100))
        (Fin (20 / 100)) (Fin 1) ''call'' ''volatility'' (Fin (20 / 100)) 3)
   = Inr [Fin (10 / 100), Fin (20 / 100), Fin (30 / 100)]"
proof -
  have ok: "\<not> isl (truediv (PyFloat (Fin 100)) (PyFloat (Fin 100)))" by simp
  have lin: "linspace (Fin (20 / 100) * Fin (5 / 10)) (Fin (20 / 100) * Fin (15 / 10)) 3
             = Inr [Fin (10 / 100), Fin (20 / 100), Fin (30 / 100)]"
    using linspace_finite [of 3 "10 / 100" "30 / 100"] by (simp add: lin_seq_3)
  show ?thesis
    using generate_volatility [OF lin ok, where r = "Fin (5 / 100)" and T = "Fin 1"
        and ot = "''call''" and rp = "Fin (20 / 100)"]
    by simp
qed

lemma Fin_spread:
  "Fin a * (Fin 1 - Fin p) = Fin (a * (1 - p))" "Fin a * (Fin 1 + Fin p) = Fin (a * (1 + p))"
  by simp_all


section \<open>Inputs outside the domain\<close>

lemma truediv_raises: "truediv s k = Inl e \<Longrightarrow> e = ZeroDivisionError"
  by (cases s; cases k) (auto split: if_splits)

lemma truediv_zero_division:
  "truediv s k = Inl ZeroDivisionError \<longleftrightarrow> (\<exists>a. s = PyFloat a) \<and> k = PyFloat (Fin 0)"
  by (cases s; cases k) auto

lemma d1_d2_raises_iff: "calculate_d1_d2 S K r sigma T = Inl e \<longleftrightarrow> truediv S K = Inl e"
  by (cases "truediv S K") (simp_all add: calculate_d1_d2_def Let_def)

lemma price_raises: "calculate_option_price S K r sigma T ot = Inl e \<Longrightarrow> truediv S K = Inl e"
proof (cases "calculate_d1_d2 S K r sigma T")
  case (Inl e')
  assume "calculate_option_price S K r sigma T ot = Inl e"
  with Inl show ?thesis
    using d1_d2_raises_iff [of S K r sigma T e'] by (simp add: calculate_option_price_def)
next
  case (Inr d)
  assume "calculate_option_price S K r sigma T ot = Inl e"
  with Inr show ?thesis
    by (cases d) (simp add: calculate_option_price_def split: if_splits)
qed

lemma greeks_raises: "calculate_greeks S K r sigma T ot = Inl e \<Longrightarrow> truediv S K = Inl e"
proof (cases "calculate_d1_d2 S K r sigma T")
  case (Inl e')
  assume "calculate_greeks S K r sigma T ot = Inl e"
  with Inl show ?thesis
    using d1_d2_raises_iff [of S K r sigma T e'] by (simp add: calculate_greeks_def)
next
  case (Inr d)
  assume "calculate_greeks S K r sigma T ot = Inl e"
  with Inr show ?thesis
    by (cases d) (simp add: calculate_greeks_def Let_def split: if_splits)
qed

lemma sweep_loop_raises:
  "sweep_loop base vp ot xs acc = Inl e \<Longrightarrow> e = ZeroDivisionError"
proof (induction xs arbitrary: acc)
  case Nil
  then show ?case by simp
next
  case (Cons x xs)
  obtain ps gd where acc: "acc = (ps, gd)" by (cases acc)
  let ?p = "set_param base vp x"
  show ?case
  proof (cases "calculate_option_price (prm_S ?p) (prm_K ?p) (prm_r ?p) (prm_sigma ?p) (prm_T ?p) ot")
    case (Inl e')
    with Cons.prems acc have "e = e'" by (simp add: Let_def)
    with Inl show ?thesis
      using price_raises truediv_raises by blast
  next
    case pr: (Inr price)
    show ?thesis
    proof (cases "calculate_greeks (prm_S ?p) (prm_K ?p) (prm_r ?p) (prm_sigma ?p) (prm_T ?p) ot")
      case (Inl e')
      with Cons.prems acc pr have "e = e'" by (simp add: Let_def)
      with Inl show ?thesis
        using greeks_raises truediv_raises by blast
    next
      case (Inr g)
      with Cons.prems acc pr have "sweep_loop base vp ot xs
          (ps @ [price],
           \<lparr> delta = delta gd @ [delta g], gamma = gamma gd @ [gamma g],
             vega = vega gd @ [vega g], theta = theta gd @ [theta g],
             rho = rho gd @ [rho g] \<rparr>) = Inl e"
        by (simp add: Let_def)
      then show ?thesis
        by (rule Cons.IH)
    qed
  qed
qed

lemma linspace_raises: "linspace a b N = Inl e \<Longrightarrow> e = ValueError"
  by (simp add: linspace_def Let_def split: if_splits)

lemma generate_raises:
  assumes "generate_sensitivity_data S K r sigma T ot param rp N = Inl e"
  shows "e = ValueError \<or> e = UnboundLocalError \<or> e = ZeroDivisionError"
proof -
  let ?base = "\<lparr> prm_S = S, prm_K = K, prm_r = r, prm_sigma = sigma, prm_T = T \<rparr>"
  let ?init = "([], \<lparr> delta = [], gamma = [], vega = [], theta = [], rho = [] \<rparr>)
               :: fl list \<times> fl list greeks"
  have loop: "e = ZeroDivisionError"
    if "(case sweep_loop ?base vp ot xv ?init of Inl e \<Rightarrow> Inl e
         | Inr (prices, greeks_dict) \<Rightarrow> Inr (xv, prices, greeks_dict)) = Inl e" for vp xv
  proof (cases "sweep_loop ?base vp ot xv ?init")
    case (Inl e')
    with that have "e = e'" by simp
    with Inl show ?thesis using sweep_loop_raises by blast
  next
    case (Inr res)
    with that show ?thesis by (cases res) simp
  qed
  have axis: "e = ValueError \<or> e = ZeroDivisionError"
    if "(case map_sum id (\<lambda>x_values. (x_values, vp)) (linspace a b N) of
           Inl e \<Rightarrow> Inl e
         | Inr (x_values, vary_param) \<Rightarrow>
             (case sweep_loop ?base vary_param ot x_values ?init of
                Inl e \<Rightarrow> Inl e
              | Inr (prices, greeks_dict) \<Rightarrow> Inr (x_values, prices, greeks_dict))) = Inl e"
    for vp a b
  proof (cases "linspace a b N")
    case (Inl e')
    with that have "e = e'" by simp
    with Inl show ?thesis using linspace_raises by blast
  next
    case (Inr xv)
    with that loop [where vp = vp and xv = xv] show ?thesis by simp
  qed
  show ?thesis
    using assms axis
    unfolding generate_sensitivity_data_def Let_def
    by (auto split: if_splits)
qed


lemma truediv_finite_args:
  assumes "val S = Fin s" "val K = Fin k" "truediv S K = Inr q"
  shows "q = Fin s / Fin k"
  using assms by (cases S; cases K) (auto split: if_splits)

lemma np_log_quotient:
  "np_log (Fin s / Fin k)
   = (if 0 < s * k then Fin (ln (s / k))
      else if k = 0 \<and> 0 < s then PInf
      else if k \<noteq> 0 \<and> s = 0 then NInf
      else NaN)"
  by (auto simp: zero_less_mult_iff zero_less_divide_iff not_less
      dest: order.antisym)

lemma d1_shape:
  "(Fin a + (Fin r + Fin (1 / 2) * pow2 (Fin sg)) * Fin t) / (Fin sg * np_sqrt (Fin t))
   = (if t < 0 then NaN
      else if sg \<noteq> 0 \<and> 0 < t then Fin ((a + (r + 1 / 2 * sg\<^sup>2) * t) / (sg * sqrt t))
      else if a + (r + 1 / 2 * sg\<^sup>2) * t = 0 then NaN
      else if 0 < a + (r + 1 / 2 * sg\<^sup>2) * t then PInf else NInf)"
  by auto

lemma d1_nonfinite_numerator:
  "q \<in> {PInf, NInf, NaN} \<Longrightarrow>
   \<not> is_finite ((q + (Fin r + Fin (1 / 2) * pow2 (Fin sg)) * Fin t) / (Fin sg * np_sqrt (Fin t)))"
  by (auto split: if_splits)

lemma minus_nonfinite: "\<not> is_finite a \<Longrightarrow> \<not> is_finite (a - b)"
  by (cases a; cases b) (simp_all add: minus_fl_def)

lemma d1_d2_finite_iff:
  assumes "val S = Fin s" "val K = Fin k"
    and "calculate_d1_d2 S K (Fin r) (Fin sg) (Fin t) = Inr (d1, d2)"
  shows "is_finite d1 \<longleftrightarrow> 0 < s * k \<and> sg \<noteq> 0 \<and> 0 < t"
    and "is_finite d2 \<longleftrightarrow> is_finite d1"
proof -
  from assms(3) obtain q where q: "truediv S K = Inr q"
    and d1: "d1 = (np_log q + (Fin r + Fin (1 / 2) * pow2 (Fin sg)) * Fin t)
                  / (Fin sg * np_sqrt (Fin t))"
    and d2: "d2 = d1 - Fin sg * np_sqrt (Fin t)"
    by (cases "truediv S K") (auto simp: calculate_d1_d2_def Let_def)
  have q': "q = Fin s / Fin k"
    using assms(1,2) q by (rule truediv_finite_args)
  show fin1: "is_finite d1 \<longleftrightarrow> 0 < s * k \<and> sg \<noteq> 0 \<and> 0 < t"
  proof (cases "0 < s * k")
    case True
    then have "np_log q = Fin (ln (s / k))"
      unfolding q' np_log_quotient by simp
    then show ?thesis
      using True unfolding d1 by (simp only: d1_shape) auto
  next
    case False
    then have "np_log q \<in> {PInf, NInf, NaN}"
      unfolding q' np_log_quotient by simp
    from d1_nonfinite_numerator [OF this] False show ?thesis
      unfolding d1 by simp
  qed
  show "is_finite d2 \<longleftrightarrow> is_finite d1"
  proof (cases "is_finite d1")
    case True
    with fin1 have "0 < t" by simp
    moreover from True obtain a where "d1 = Fin a" by (cases d1) simp_all
    ultimately show ?thesis
      unfolding d2 by simp
  next
    case False
    then show ?thesis
      unfolding d2 by (simp add: minus_nonfinite)
  qed
qed


lemma d1_d2_negative_spot:
  "calculate_d1_d2 (PyFloat (Fin (- 100))) (PyFloat (Fin 100)) (Fin (5 / 100)) (Fin (20 / 100))
     (Fin 1) = Inr (NaN, NaN)"
  by (simp add: calculate_d1_d2_def Let_def minus_fl_def)

lemma price_negative_spot:
  "calculate_option_price (PyFloat (Fin (- 100))) (PyFloat (Fin 100)) (Fin (5 / 100))
     (Fin (20 / 100)) (Fin 1) ''call'' = Inr NaN"
  using d1_d2_negative_spot
  by (simp add: calculate_option_price_def lower_call minus_fl_def)


section \<open>Underflow of gamma and vega\<close>

lemma calculate_greeks_rounded_exact:
  "calculate_greeks_rounded (\<lambda>x. x) S K r sigma T ot = calculate_greeks S K r sigma T ot"
  by (simp add: calculate_greeks_rounded_def calculate_greeks_def)
















section \<open>The two branches of the option type\<close>

lemma price_branches:
  assumes "calculate_d1_d2 S K r sigma T = Inr (d1, d2)"
  shows "calculate_option_price S K r sigma T ot
         = Inr (if lower ot = ''call''
                then val S * norm_cdf d1 - val K * np_exp (- r * T) * norm_cdf d2
                else val K * np_exp (- r * T) * norm_cdf (- d2) - val S * norm_cdf (- d1))"
  using assms by (simp add: calculate_option_price_def)

lemma greeks_branches:
  assumes "calculate_d1_d2 S K r sigma T = Inr (d1, d2)"
  shows "calculate_greeks S K r sigma T ot
         = Inr (if lower ot = ''call''
                then \<lparr> delta = norm_cdf d1,
                       gamma = norm_pdf d1 / (val S * sigma * np_sqrt T),
                       vega = val S * norm_pdf d1 * np_sqrt T / Fin 100,
                       theta = (- val S * norm_pdf d1 * sigma / (Fin 2 * np_sqrt T)
                                - r * val K * np_exp (- r * T) * norm_cdf d2) / Fin 365,
                       rho = val K * T * np_exp (- r * T) * norm_cdf d2 / Fin 100 \<rparr>
                else \<lparr> delta = norm_cdf d1 - Fin 1,
                       gamma = norm_pdf d1 / (val S * sigma * np_sqrt T),
                       vega = val S * norm_pdf d1 * np_sqrt T / Fin 100,
                       theta = (- val S * norm_pdf d1 * sigma / (Fin 2 * np_sqrt T)
                                + r * val K * np_exp (- r * T) * norm_cdf (- d2)) / Fin 365,
                       rho = - val K * T * np_exp (- r * T) * norm_cdf (- d2) / Fin 100 \<rparr>)"
  using assms by (simp add: calculate_greeks_def Let_def)

lemma price_greeks_propagate:
  assumes "calculate_d1_d2 S K r sigma T = Inl e"
  shows "calculate_option_price S K r sigma T ot = Inl e"
    and "calculate_greeks S K r sigma T ot = Inl e"
  using assms by (simp_all add: calculate_option_price_def calculate_greeks_def)

lemma price_valid_dispatch:
  assumes "val s = Fin S" "val k = Fin K" "0 < S" "0 < K" "0 < sigma" "0 < T"
  shows "calculate_option_price s k (Fin r) (Fin sigma) (Fin T) ot
         = Inr (Fin (if lower ot = ''call'' then spec_call_price S K r sigma T
                     else spec_put_price S K r sigma T))"
  using price_dispatch [of s k "Fin r" "Fin sigma" "Fin T" ot]
    price_call_valid [OF assms, of r] price_put_valid [OF assms, of r]
  by simp

lemma greeks_valid_dispatch:
  assumes "val s = Fin S" "val k = Fin K" "0 < S" "0 < K" "0 < sigma" "0 < T"
  shows "calculate_greeks s k (Fin r) (Fin sigma) (Fin T) ot
         = Inr (fin_greeks (if lower ot = ''call'' then spec_greeks_call S K r sigma T
                            else spec_greeks_put S K r sigma T))"
  using greeks_dispatch [of s k "Fin r" "Fin sigma" "Fin T" ot]
    greeks_call_valid [OF assms, of r] greeks_put_valid [OF assms, of r]
  by simp

section \<open>What the functions return outside the domain\<close>

lemma d1_d2_returns:
  assumes "\<not> ((\<exists>a. S = PyFloat a) \<and> K = PyFloat (Fin 0))"
  shows "\<exists>d1 d2. calculate_d1_d2 S K r sigma T = Inr (d1, d2)"
proof (cases "calculate_d1_d2 S K r sigma T")
  case (Inl e)
  then have "truediv S K = Inl e" by (simp add: d1_d2_raises_iff)
  moreover from this have "e = ZeroDivisionError" by (rule truediv_raises)
  ultimately show ?thesis
    using assms truediv_zero_division [of S K] by simp
next
  case (Inr d)
  then show ?thesis by (cases d) simp
qed

lemma price_greeks_return:
  assumes "calculate_d1_d2 S K r sigma T = Inr (d1, d2)"
  shows "\<exists>p g. calculate_option_price S K r sigma T ot = Inr p
             \<and> calculate_greeks S K r sigma T ot = Inr g"
  using assms by (simp add: calculate_option_price_def calculate_greeks_def Let_def)

lemma price_greeks_zero_division:
  assumes "(\<exists>a. S = PyFloat a) \<and> K = PyFloat (Fin 0)"
  shows "calculate_option_price S K r sigma T ot = Inl ZeroDivisionError
       \<and> calculate_greeks S K r sigma T ot = Inl ZeroDivisionError"
proof -
  from assms have "truediv S K = Inl ZeroDivisionError"
    by (simp add: truediv_zero_division)
  then have "calculate_d1_d2 S K r sigma T = Inl ZeroDivisionError"
    by (simp add: d1_d2_raises_iff)
  then show ?thesis
    by (simp add: calculate_option_price_def calculate_greeks_def)
qed

lemma invalid_not_finite:
  assumes "val S = Fin s" "val K = Fin k"
    and "calculate_d1_d2 S K (Fin r) (Fin sg) (Fin t) = Inr (d1, d2)"
    and "s * k \<le> 0 \<or> sg = 0 \<or> t \<le> 0"
  shows "\<not> is_finite d1 \<and> \<not> is_finite d2"
  using d1_d2_finite_iff [OF assms(1,2,3)] assms(4) by auto

section \<open>Claims\<close>

subsection \<open>Option price\<close>

text \<open>
  C1. For a positive spot \<open>S\<close>, a positive strike \<open>K\<close>, any rate \<open>r\<close>, a positive volatility
  \<open>sigma\<close> and a positive time to expiry \<open>T\<close> (the spot and the strike given as plain Python
  numbers or as numpy values), \<open>calculate_option_price\<close> returns without an exception the
  finite value \<open>S \<Phi>(d1) - K exp(-rT) \<Phi>(d2)\<close> for the option type \<open>call\<close> and
  \<open>K exp(-rT) \<Phi>(-d2) - S \<Phi>(-d1)\<close> for \<open>put\<close>, with \<open>d1\<close> and \<open>d2\<close> as in section 4.2 of
  the specification. For \<open>S = 100\<close>, \<open>K = 100\<close>, \<open>r = 0.05\<close>, \<open>sigma = 0.20\<close>, \<open>T = 1\<close> the call
  price lies within \<open>0.001\<close> of \<open>10.4506\<close>.
\<close>

theorem calculate_option_price_black_scholes:
  assumes "0 < S" "0 < K" "0 < sigma" "0 < T" "val s = Fin S" "val k = Fin K"
  shows "calculate_option_price s k (Fin r) (Fin sigma) (Fin T) ''call''
           = Inr (Fin (spec_call_price S K r sigma T))
       \<and> calculate_option_price s k (Fin r) (Fin sigma) (Fin T) ''put''
           = Inr (Fin (spec_put_price S K r sigma T))
       \<and> (\<exists>p. calculate_option_price (PyFloat (Fin 100)) (PyFloat (Fin 100))
                 (Fin (5 / 100)) (Fin (20 / 100)) (Fin 1) ''call'' = Inr (Fin p)
              \<and> \<bar>p - 104506 / 10000\<bar> \<le> 1 / 1000)"
proof -
  have "calculate_option_price (PyFloat (Fin 100)) (PyFloat (Fin 100))
          (Fin (5 / 100)) (Fin (20 / 100)) (Fin 1) ''call''
        = Inr (Fin (spec_call_price 100 100 (5 / 100) (20 / 100) 1))"
    by (rule price_call_valid) simp_all
  with scenario_call_price price_call_valid [OF assms(5,6,1,2,3,4)]
    price_put_valid [OF assms(5,6,1,2,3,4)]
  show ?thesis by blast
qed

theorem calculate_option_price_black_scholes_witness:
  "(0::real) < 120 \<and> (0::real) < 100 \<and> (0::real) < 1 / 4 \<and> (0::real) < 1 / 2
   \<and> val (NpFloat (Fin 120)) = Fin 120 \<and> val (PyFloat (Fin 100)) = Fin 100
   \<and> calculate_option_price (NpFloat (Fin 120)) (PyFloat (Fin 100)) (Fin (3 / 100)) (Fin (1 / 4))
         (Fin (1 / 2)) ''call'' = Inr (Fin (spec_call_price 120 100 (3 / 100) (1 / 4) (1 / 2)))
   \<and> calculate_option_price (NpFloat (Fin 120)) (PyFloat (Fin 100)) (Fin (3 / 100)) (Fin (1 / 4))
         (Fin (1 / 2)) ''put'' = Inr (Fin (spec_put_price 120 100 (3 / 100) (1 / 4) (1 / 2)))"
  using calculate_option_price_black_scholes
    [where S = 120 and K = 100 and sigma = "1 / 4" and T = "1 / 2"
      and s = "NpFloat (Fin 120)" and k = "PyFloat (Fin 100)" and r = "3 / 100"]
  by simp

text \<open>
  C2. Put-call parity: for the same valid inputs the call price and the put price that
  \<open>calculate_option_price\<close> returns are finite and their difference is \<open>S - K exp(-rT)\<close>.
\<close>

theorem put_call_parity:
  assumes "0 < S" "0 < K" "0 < sigma" "0 < T" "val s = Fin S" "val k = Fin K"
  shows "\<exists>c p. calculate_option_price s k (Fin r) (Fin sigma) (Fin T) ''call'' = Inr (Fin c)
             \<and> calculate_option_price s k (Fin r) (Fin sigma) (Fin T) ''put'' = Inr (Fin p)
             \<and> c - p = S - K * exp (- r * T)"
proof -
  have "spec_call_price S K r sigma T - spec_put_price S K r sigma T = S - K * exp (- r * T)"
    by (simp add: spec_call_price_def spec_put_price_def std_normal_cdf_minus algebra_simps)
  with price_call_valid [OF assms(5,6,1,2,3,4)] price_put_valid [OF assms(5,6,1,2,3,4)]
  show ?thesis by blast
qed

theorem put_call_parity_witness:
  "(0::real) < 120 \<and> (0::real) < 100 \<and> (0::real) < 1 / 4 \<and> (0::real) < 1 / 2
   \<and> val (NpFloat (Fin 120)) = Fin 120 \<and> val (PyFloat (Fin 100)) = Fin 100
   \<and> (\<exists>c p. calculate_option_price (NpFloat (Fin 120)) (PyFloat (Fin 100)) (Fin (3 / 100))
               (Fin (1 / 4)) (Fin (1 / 2)) ''call'' = Inr (Fin c)
           \<and> calculate_option_price (NpFloat (Fin 120)) (PyFloat (Fin 100)) (Fin (3 / 100))
               (Fin (1 / 4)) (Fin (1 / 2)) ''put'' = Inr (Fin p)
           \<and> c - p = 120 - 100 * exp (- (3 / 100) * (1 / 2)))"
  using put_call_parity
    [where S = 120 and K = 100 and sigma = "1 / 4" and T = "1 / 2"
      and s = "NpFloat (Fin 120)" and k = "PyFloat (Fin 100)" and r = "3 / 100"]
  by simp

subsection \<open>Greeks\<close>

text \<open>
  C3. For the same valid inputs \<open>calculate_greeks\<close> returns the closed forms of section
  4.4 of the specification with their units: delta is \<open>\<Phi>(d1)\<close> for a call and
  \<open>\<Phi>(d1) - 1\<close> for a put, gamma is \<open>\<phi>(d1) / (S sigma sqrt T)\<close>, vega is
  \<open>S \<phi>(d1) sqrt T\<close> divided by 100, theta is the annual closed form divided by 365 and
  rho is divided by 100.
\<close>

theorem calculate_greeks_closed_form:
  assumes "0 < S" "0 < K" "0 < sigma" "0 < T" "val s = Fin S" "val k = Fin K"
  shows "calculate_greeks s k (Fin r) (Fin sigma) (Fin T) ''call''
           = Inr (fin_greeks (spec_greeks_call S K r sigma T))
       \<and> calculate_greeks s k (Fin r) (Fin sigma) (Fin T) ''put''
           = Inr (fin_greeks (spec_greeks_put S K r sigma T))"
  using greeks_call_valid [OF assms(5,6,1,2,3,4)] greeks_put_valid [OF assms(5,6,1,2,3,4)]
  by simp


theorem calculate_greeks_closed_form_witness:
  "(0::real) < 120 \<and> (0::real) < 100 \<and> (0::real) < 1 / 4 \<and> (0::real) < 1 / 2
   \<and> val (NpFloat (Fin 120)) = Fin 120 \<and> val (PyFloat (Fin 100)) = Fin 100
   \<and> calculate_greeks (NpFloat (Fin 120)) (PyFloat (Fin 100)) (Fin (3 / 100)) (Fin (1 / 4))
         (Fin (1 / 2)) ''call''
       = Inr (fin_greeks (spec_greeks_call 120 100 (3 / 100) (1 / 4) (1 / 2)))
   \<and> calculate_greeks (NpFloat (Fin 120)) (PyFloat (Fin 100)) (Fin (3 / 100)) (Fin (1 / 4))
         (Fin (1 / 2)) ''put''
       = Inr (fin_greeks (spec_greeks_put 120 100 (3 / 100) (1 / 4) (1 / 2)))"
  using calculate_greeks_closed_form
    [where S = 120 and K = 100 and sigma = "1 / 4" and T = "1 / 2"
      and s = "NpFloat (Fin 120)" and k = "PyFloat (Fin 100)" and r = "3 / 100"]
  by simp




subsection \<open>Time to expiry\<close>

text \<open>
  C9. For every expiration date and every reading of the clock,
  \<open>calculate_time_to_expiry\<close> returns the larger of the floor \<open>0.0001\<close> and the number of
  whole days from now to the expiration (the \<open>days\<close> field of the difference, rounded
  down) over 365. The result is strictly positive, and an expiration in the past or less
  than one day ahead gives the floor itself. The function is total: it has no error
  result.
\<close>

theorem calculate_time_to_expiry_floor:
  "calculate_time_to_expiry now target
     = max (real_of_int \<lfloor>real_of_int (target - now) / 86400000000\<rfloor> / 365) (1 / 10000)
   \<and> 0 < calculate_time_to_expiry now target
   \<and> (target - now < 86400000000 \<longrightarrow> calculate_time_to_expiry now target = 1 / 10000)"
proof -
  have fl: "timedelta_days (target - now) = \<lfloor>real_of_int (target - now) / 86400000000\<rfloor>"
    unfolding timedelta_days_def
    using floor_divide_of_int_eq [of "target - now" 86400000000, where ?'a = real] by simp
  have a: "calculate_time_to_expiry now target
     = max (real_of_int \<lfloor>real_of_int (target - now) / 86400000000\<rfloor> / 365) (1 / 10000)"
    unfolding calculate_time_to_expiry_def Let_def fl ..
  have b: "0 < calculate_time_to_expiry now target"
    unfolding a by (simp add: less_max_iff_disj)
  have c: "calculate_time_to_expiry now target = 1 / 10000" if "target - now < 86400000000"
  proof -
    have "(target - now) div 86400000000 \<le> 0"
      using that by arith
    then have "real_of_int (timedelta_days (target - now)) / 365 \<le> 0"
      unfolding timedelta_days_def by (simp add: divide_le_0_iff)
    then show ?thesis
      unfolding calculate_time_to_expiry_def Let_def by (simp add: max_def)
  qed
  from a b c show ?thesis by blast
qed


theorem calculate_time_to_expiry_floor_witness:
  "(0::int) - 3600000000 < 86400000000
   \<and> calculate_time_to_expiry 3600000000 0 = 1 / 10000
   \<and> 0 < calculate_time_to_expiry 3600000000 0"
  using calculate_time_to_expiry_floor [of 3600000000 0]
  by simp


subsection \<open>Option type\<close>

text \<open>
  C10. The option type is compared after \<open>lower\<close>. When \<open>calculate_d1_d2\<close> returns the
  pair \<open>d1\<close>, \<open>d2\<close>, a string whose lower-case form is \<open>call\<close> (such as \<open>CALL\<close>, \<open>Call\<close> or
  \<open>cAlL\<close>) makes \<open>calculate_option_price\<close> return \<open>S \<Phi>(d1) - K exp(-rT) \<Phi>(d2)\<close> and
  \<open>calculate_greeks\<close> return the record of the call branch, and every other string (such
  as \<open>put\<close>, \<open>Put\<close>, \<open>banana\<close> or the empty string) makes them return
  \<open>K exp(-rT) \<Phi>(-d2) - S \<Phi>(-d1)\<close> and the record of the put branch; on valid inputs these
  are the call and the put forms of the specification. No string causes an error: the
  two functions raise only what \<open>calculate_d1_d2\<close> raises, before the string is read.
\<close>

theorem option_type_dispatch:
  "(\<forall>d1 d2. calculate_d1_d2 S K r sigma T = Inr (d1, d2) \<longrightarrow>
      calculate_option_price S K r sigma T option_type
      = Inr (if lower option_type = ''call''
             then val S * norm_cdf d1 - val K * np_exp (- r * T) * norm_cdf d2
             else val K * np_exp (- r * T) * norm_cdf (- d2) - val S * norm_cdf (- d1))
    \<and> calculate_greeks S K r sigma T option_type
      = Inr (if lower option_type = ''call''
             then \<lparr> delta = norm_cdf d1,
                    gamma = norm_pdf d1 / (val S * sigma * np_sqrt T),
                    vega = val S * norm_pdf d1 * np_sqrt T / Fin 100,
                    theta = (- val S * norm_pdf d1 * sigma / (Fin 2 * np_sqrt T)
                             - r * val K * np_exp (- r * T) * norm_cdf d2) / Fin 365,
                    rho = val K * T * np_exp (- r * T) * norm_cdf d2 / Fin 100 \<rparr>
             else \<lparr> delta = norm_cdf d1 - Fin 1,
                    gamma = norm_pdf d1 / (val S * sigma * np_sqrt T),
                    vega = val S * norm_pdf d1 * np_sqrt T / Fin 100,
                    theta = (- val S * norm_pdf d1 * sigma / (Fin 2 * np_sqrt T)
                             + r * val K * np_exp (- r * T) * norm_cdf (- d2)) / Fin 365,
                    rho = - val K * T * np_exp (- r * T) * norm_cdf (- d2) / Fin 100 \<rparr>))
   \<and> (\<forall>e. calculate_d1_d2 S K r sigma T = Inl e \<longrightarrow>
          calculate_option_price S K r sigma T option_type = Inl e
        \<and> calculate_greeks S K r sigma T option_type = Inl e)
   \<and> (\<forall>s k r' sg t.
         0 < s \<and> 0 < k \<and> 0 < sg \<and> 0 < t
         \<and> val S = Fin s \<and> val K = Fin k \<and> r = Fin r' \<and> sigma = Fin sg \<and> T = Fin t \<longrightarrow>
         calculate_option_price S K r sigma T option_type
         = Inr (Fin (if lower option_type = ''call'' then spec_call_price s k r' sg t
                     else spec_put_price s k r' sg t))
       \<and> calculate_greeks S K r sigma T option_type
         = Inr (fin_greeks (if lower option_type = ''call'' then spec_greeks_call s k r' sg t
                            else spec_greeks_put s k r' sg t)))
   \<and> lower ''call'' = ''call'' \<and> lower ''CALL'' = ''call'' \<and> lower ''Call'' = ''call''
   \<and> lower ''cAlL'' = ''call''
   \<and> lower ''put'' \<noteq> ''call'' \<and> lower ''Put'' \<noteq> ''call'' \<and> lower ''banana'' \<noteq> ''call''
   \<and> lower '''' \<noteq> ''call''"
proof -
  have ex: "lower ''CALL'' = ''call''" "lower ''Call'' = ''call''" "lower ''cAlL'' = ''call''"
    "lower ''Put'' \<noteq> ''call''" "lower ''banana'' \<noteq> ''call''" "lower '''' \<noteq> ''call''"
    by code_simp+
  have a: "calculate_option_price S K r sigma T option_type
      = Inr (if lower option_type = ''call''
             then val S * norm_cdf d1 - val K * np_exp (- r * T) * norm_cdf d2
             else val K * np_exp (- r * T) * norm_cdf (- d2) - val S * norm_cdf (- d1))
    \<and> calculate_greeks S K r sigma T option_type
      = Inr (if lower option_type = ''call''
             then \<lparr> delta = norm_cdf d1,
                    gamma = norm_pdf d1 / (val S * sigma * np_sqrt T),
                    vega = val S * norm_pdf d1 * np_sqrt T / Fin 100,
                    theta = (- val S * norm_pdf d1 * sigma / (Fin 2 * np_sqrt T)
                             - r * val K * np_exp (- r * T) * norm_cdf d2) / Fin 365,
                    rho = val K * T * np_exp (- r * T) * norm_cdf d2 / Fin 100 \<rparr>
             else \<lparr> delta = norm_cdf d1 - Fin 1,
                    gamma = norm_pdf d1 / (val S * sigma * np_sqrt T),
                    vega = val S * norm_pdf d1 * np_sqrt T / Fin 100,
                    theta = (- val S * norm_pdf d1 * sigma / (Fin 2 * np_sqrt T)
                             + r * val K * np_exp (- r * T) * norm_cdf (- d2)) / Fin 365,
                    rho = - val K * T * np_exp (- r * T) * norm_cdf (- d2) / Fin 100 \<rparr>)"
    if "calculate_d1_d2 S K r sigma T = Inr (d1, d2)" for d1 d2
    using price_branches [OF that] greeks_branches [OF that] by (rule conjI)
  have b: "calculate_option_price S K r sigma T option_type = Inl e
        \<and> calculate_greeks S K r sigma T option_type = Inl e"
    if "calculate_d1_d2 S K r sigma T = Inl e" for e
    using price_greeks_propagate [OF that] by (rule conjI)
  have c: "calculate_option_price S K r sigma T option_type
         = Inr (Fin (if lower option_type = ''call'' then spec_call_price s k r' sg t
                     else spec_put_price s k r' sg t))
       \<and> calculate_greeks S K r sigma T option_type
         = Inr (fin_greeks (if lower option_type = ''call'' then spec_greeks_call s k r' sg t
                            else spec_greeks_put s k r' sg t))"
    if "0 < s \<and> 0 < k \<and> 0 < sg \<and> 0 < t
         \<and> val S = Fin s \<and> val K = Fin k \<and> r = Fin r' \<and> sigma = Fin sg \<and> T = Fin t"
    for s k r' sg t
    using that price_valid_dispatch [of S s K k sg t r' option_type]
      greeks_valid_dispatch [of S s K k sg t r' option_type]
    by simp
  from a b c ex lower_call lower_put show ?thesis
    by blast
qed

theorem option_type_dispatch_witness:
  "(0::real) < 100 \<and> (0::real) < 90 \<and> (0::real) < 20 / 100 \<and> (0::real) < 1
   \<and> val (PyFloat (Fin 100)) = Fin 100 \<and> val (PyFloat (Fin 90)) = Fin 90
   \<and> lower ''Put'' \<noteq> ''call''
   \<and> calculate_option_price (PyFloat (Fin 100)) (PyFloat (Fin 90)) (Fin (5 / 100))
       (Fin (20 / 100)) (Fin 1) ''Put''
     = Inr (Fin (spec_put_price 100 90 (5 / 100) (20 / 100) 1))
   \<and> calculate_greeks (PyFloat (Fin 100)) (PyFloat (Fin 90)) (Fin (5 / 100))
       (Fin (20 / 100)) (Fin 1) ''Put''
     = Inr (fin_greeks (spec_greeks_put 100 90 (5 / 100) (20 / 100) 1))"
proof -
  note t = option_type_dispatch [of "PyFloat (Fin 100)" "PyFloat (Fin 90)" "Fin (5 / 100)" "Fin (20 / 100)"
      "Fin 1" "''Put''"]
  have h: "(0::real) < 100 \<and> (0::real) < 90 \<and> (0::real) < 20 / 100 \<and> (0::real) < 1
      \<and> val (PyFloat (Fin 100)) = Fin 100 \<and> val (PyFloat (Fin 90)) = Fin 90
      \<and> Fin (5 / 100) = Fin (5 / 100) \<and> Fin (20 / 100) = Fin (20 / 100) \<and> Fin 1 = Fin 1"
    by simp
  from t have l: "lower ''Put'' \<noteq> ''call''"
    by blast
  from t have "\<forall>s k r' sg t.
         0 < s \<and> 0 < k \<and> 0 < sg \<and> 0 < t
         \<and> val (PyFloat (Fin 100)) = Fin s \<and> val (PyFloat (Fin 90)) = Fin k
         \<and> Fin (5 / 100) = Fin r' \<and> Fin (20 / 100) = Fin sg \<and> Fin 1 = Fin t \<longrightarrow>
         calculate_option_price (PyFloat (Fin 100)) (PyFloat (Fin 90)) (Fin (5 / 100))
           (Fin (20 / 100)) (Fin 1) ''Put''
         = Inr (Fin (if lower ''Put'' = ''call'' then spec_call_price s k r' sg t
                     else spec_put_price s k r' sg t))
       \<and> calculate_greeks (PyFloat (Fin 100)) (PyFloat (Fin 90)) (Fin (5 / 100))
           (Fin (20 / 100)) (Fin 1) ''Put''
         = Inr (fin_greeks (if lower ''Put'' = ''call'' then spec_greeks_call s k r' sg t
                            else spec_greeks_put s k r' sg t))"
    by (elim conjE)
  from this [rule_format, OF h] l h show ?thesis
    by simp
qed

subsection \<open>Historical volatility\<close>

text \<open>
  C6, as stated, fails: the two prices 100 and 101 give one return observation, fewer
  than two, and with the window 30 \<open>calculate_historical_volatility\<close> returns \<open>nan\<close>, not
  the fallback \<open>0.20\<close>. The guard of the source tests whether the series of returns is
  empty, not whether it holds fewer than two observations.
\<close>

theorem historical_volatility_one_return_nan:
  "length (dropna (pct_change [100, 101])) < 2
   \<and> calculate_historical_volatility [100, 101] 30 = Inr NaN
   \<and> calculate_historical_volatility [100, 101] 30 \<noteq> Inr (Fin (2 / 10))"
  by (simp add: hist_vol_pair returns_pair)

text \<open>
  C6, amended. For every price series that leaves no return observation after \<open>dropna\<close>
  (in particular the empty series and every series of one price) and every window
  length that is not negative, \<open>calculate_historical_volatility\<close> returns exactly the
  fallback \<open>0.20\<close>, neither \<open>nan\<close> nor an error; a negative window is rejected with
  \<open>ValueError\<close>.
\<close>

theorem historical_volatility_fallback:
  "(dropna (pct_change price_data) = [] \<longrightarrow>
      calculate_historical_volatility price_data window
      = (if window < 0 then Inl ValueError else Inr (Fin (2 / 10))))
   \<and> calculate_historical_volatility [] window
      = (if window < 0 then Inl ValueError else Inr (Fin (2 / 10)))
   \<and> calculate_historical_volatility [p] window
      = (if window < 0 then Inl ValueError else Inr (Fin (2 / 10)))"
  using hist_vol_no_returns [of price_data window]
    hist_vol_no_returns [OF returns_empty, of window]
    hist_vol_no_returns [OF returns_single, of p window]
  by blast

theorem historical_volatility_fallback_witness:
  "dropna (pct_change [0, 0, 0]) = []
   \<and> calculate_historical_volatility [0, 0, 0] 30 = Inr (Fin (2 / 10))
   \<and> calculate_historical_volatility [] 30 = Inr (Fin (2 / 10))
   \<and> calculate_historical_volatility [150] 30 = Inr (Fin (2 / 10))"
proof -
  have e: "dropna (pct_change [0, 0, 0]) = []"
    by (simp add: pct_change_def dropna_def minus_fl_def)
  with historical_volatility_fallback [of "[0, 0, 0]" 30 150] show ?thesis
    by simp
qed


subsection \<open>Sensitivity sweep\<close>

text \<open>
  C5, as stated, fails for the selector \<open>volatility\<close>: with the volatility \<open>0.20\<close>, the range
  fraction \<open>0.20\<close> and three points the swept values are \<open>0.10\<close>, \<open>0.20\<close>, \<open>0.30\<close>, and
  not the values \<open>0.16\<close>, \<open>0.20\<close>, \<open>0.24\<close> that span the volatility times one minus and one
  plus the range fraction. The source sweeps the volatility from half to one and a half
  times its base value and does not read the range fraction there.
\<close>

theorem sweep_volatility_ignores_range_pct:
  "map_sum id fst
     (generate_sensitivity_data (PyFloat (Fin 100)) (PyFloat (Fin 100)) (Fin (5 / 100))
        (Fin (20 / 100)) (Fin 1) ''call'' ''volatility'' (Fin (20 / 100)) 3)
   = Inr [Fin (10 / 100), Fin (20 / 100), Fin (30 / 100)]
   \<and> map Fin (lin_seq (20 / 100 * (1 - 20 / 100)) (20 / 100 * (1 + 20 / 100)) 3)
     = [Fin (16 / 100), Fin (20 / 100), Fin (24 / 100)]
   \<and> [Fin (10 / 100), Fin (20 / 100), Fin (30 / 100)]
     \<noteq> [Fin (16 / 100), Fin (20 / 100), Fin (24 / 100)]"
  using sweep_volatility_three by (simp add: lin_seq_3)

text \<open>
  C5, amended. For a point count \<open>N\<close> that is not negative and finite base values, the
  swept values of \<open>generate_sensitivity_data\<close> are the linearly spaced sequence
  \<open>lo + i (hi - lo) / (N - 1)\<close>, \<open>i < N\<close>, where \<open>lo\<close> and \<open>hi\<close> are the base value times
  one minus and one plus the range fraction for the selectors \<open>spot\<close> and \<open>strike\<close>, half
  and one and a half times the base volatility for \<open>volatility\<close> whatever the range
  fraction is, and \<open>0.01\<close> and the base time for \<open>time\<close> (for the last two selectors
  provided the division of the spot by the strike does not raise). Such a sequence has
  \<open>N\<close> entries, starts at \<open>lo\<close> when \<open>N\<close> is at least 1, ends at \<open>hi\<close> when \<open>N\<close> is at least 2,
  and is ascending when \<open>lo\<close> is at most \<open>hi\<close>.
\<close>

theorem sweep_values:
  assumes "0 \<le> N" "val S = Fin s" "val K = Fin k"
  shows "(\<exists>prices gd. generate_sensitivity_data S K r sigma T ot ''spot'' (Fin p) N
            = Inr (map Fin (lin_seq (s * (1 - p)) (s * (1 + p)) (nat N)), prices, gd))
       \<and> (\<exists>prices gd. generate_sensitivity_data S K r sigma T ot ''strike'' (Fin p) N
            = Inr (map Fin (lin_seq (k * (1 - p)) (k * (1 + p)) (nat N)), prices, gd))
       \<and> (\<not> isl (truediv S K) \<longrightarrow>
           (\<exists>prices gd. generate_sensitivity_data S K r (Fin sg) T ot ''volatility'' rp N
              = Inr (map Fin (lin_seq (sg * (5 / 10)) (sg * (15 / 10)) (nat N)), prices, gd)))
       \<and> (\<not> isl (truediv S K) \<longrightarrow>
           (\<exists>prices gd. generate_sensitivity_data S K r sigma (Fin t) ot ''time'' rp N
              = Inr (map Fin (lin_seq (1 / 100) t (nat N)), prices, gd)))
       \<and> length (lin_seq lo hi n) = n
       \<and> (\<forall>i<n. lin_seq lo hi n ! i = lo + real i * ((hi - lo) / real (n - 1)))
       \<and> (1 \<le> n \<longrightarrow> hd (lin_seq lo hi n) = lo)
       \<and> (2 \<le> n \<longrightarrow> last (lin_seq lo hi n) = hi)
       \<and> (lo \<le> hi \<longrightarrow> sorted (lin_seq lo hi n))"
proof -
  have a: "\<exists>prices gd. generate_sensitivity_data S K r sigma T ot ''spot'' (Fin p) N
            = Inr (map Fin (lin_seq (s * (1 - p)) (s * (1 + p)) (nat N)), prices, gd)"
    using spot_run [OF assms(1), of S "Fin p" K r sigma T ot] assms(2)
      linspace_finite [OF assms(1), of "s * (1 - p)" "s * (1 + p)"]
    by (auto simp: Fin_spread)
  have b: "\<exists>prices gd. generate_sensitivity_data S K r sigma T ot ''strike'' (Fin p) N
            = Inr (map Fin (lin_seq (k * (1 - p)) (k * (1 + p)) (nat N)), prices, gd)"
    using strike_run [OF assms(1), of K "Fin p" S r sigma T ot] assms(3)
      linspace_finite [OF assms(1), of "k * (1 - p)" "k * (1 + p)"]
    by (auto simp: Fin_spread)
  have c: "\<exists>prices gd. generate_sensitivity_data S K r (Fin sg) T ot ''volatility'' rp N
              = Inr (map Fin (lin_seq (sg * (5 / 10)) (sg * (15 / 10)) (nat N)), prices, gd)"
    if "\<not> isl (truediv S K)"
    using volatility_run [OF assms(1) that, of "Fin sg" r T ot rp]
      linspace_finite [OF assms(1), of "sg * (5 / 10)" "sg * (15 / 10)"]
    by auto
  have d: "\<exists>prices gd. generate_sensitivity_data S K r sigma (Fin t) ot ''time'' rp N
              = Inr (map Fin (lin_seq (1 / 100) t (nat N)), prices, gd)"
    if "\<not> isl (truediv S K)"
    using time_run [OF assms(1) that, of "Fin t" r sigma ot rp]
      linspace_finite [OF assms(1), of "1 / 100" t]
    by auto
  from a b c d lin_seq_length [of lo hi n] lin_seq_nth [of _ n lo hi] lin_seq_hd [of n lo hi]
    lin_seq_last [of n lo hi] lin_seq_sorted [of lo hi n]
  show ?thesis by blast
qed



theorem sweep_values_witness:
  "(0::int) \<le> 50 \<and> val (PyFloat (Fin 100)) = Fin 100 \<and> val (PyFloat (Fin 90)) = Fin 90
   \<and> (\<exists>prices gd. generate_sensitivity_data (PyFloat (Fin 100)) (PyFloat (Fin 90)) (Fin (5 / 100))
          (Fin (20 / 100)) (Fin 1) ''call'' ''spot'' (Fin (20 / 100)) 50
        = Inr (map Fin (lin_seq 80 120 50), prices, gd))
   \<and> (\<exists>prices gd. generate_sensitivity_data (PyFloat (Fin 100)) (PyFloat (Fin 90)) (Fin (5 / 100))
          (Fin (20 / 100)) (Fin 1) ''call'' ''volatility'' (Fin (20 / 100)) 50
        = Inr (map Fin (lin_seq (10 / 100) (30 / 100) 50), prices, gd))
   \<and> hd (lin_seq 80 120 50) = 80 \<and> last (lin_seq 80 120 50) = 120
   \<and> sorted (lin_seq 80 120 50)"
  using sweep_values [where N = 50 and S = "PyFloat (Fin 100)" and s = 100 and K = "PyFloat (Fin 90)"
      and k = 90 and r = "Fin (5 / 100)" and sigma = "Fin (20 / 100)" and T = "Fin 1"
      and ot = "''call''" and p = "20 / 100" and sg = "20 / 100" and rp = "Fin (20 / 100)"
      and lo = 80 and hi = 120 and n = 50]
  by simp


text \<open>
  C8, as stated, fails: the swept values are not strictly ascending for every input. With
  the time to expiry \<open>0.0001\<close>, the floor that \<open>calculate_time_to_expiry\<close> returns for an
  option that expires today, the selector \<open>time\<close> sweeps from \<open>0.01\<close> down to \<open>0.0001\<close>.
\<close>

theorem sweep_time_descending:
  "map_sum id fst
     (generate_sensitivity_data (PyFloat (Fin 100)) (PyFloat (Fin 100)) (Fin (5 / 100))
        (Fin (20 / 100)) (Fin (1 / 10000)) ''call'' ''time'' (Fin (20 / 100)) 3)
   = Inr [Fin (1 / 100), Fin (101 / 20000), Fin (1 / 10000)]
   \<and> \<not> sorted_wrt fl_less [Fin (1 / 100), Fin (101 / 20000), Fin (1 / 10000)]"
  using sweep_time_short by simp

text \<open>
  C8, amended. For every recognised selector, every point count \<open>N\<close> that is not negative
  and every base input on which the division of the spot by the strike does not raise,
  the sweep returns swept values, prices and five lists of Greeks that all have length
  \<open>N\<close> and are aligned: entry \<open>i\<close> of the prices and of the Greeks is what
  \<open>calculate_option_price\<close> and \<open>calculate_greeks\<close> return for the base inputs with entry
  \<open>i\<close> of the swept values in the place of the selected one. For finite base inputs and
  \<open>N\<close> at least 2 the swept values are strictly ascending exactly when the base value times
  the range fraction is positive (\<open>spot\<close>, \<open>strike\<close>), the volatility is positive
  (\<open>volatility\<close>), or the time to expiry exceeds \<open>0.01\<close> (\<open>time\<close>).
\<close>

theorem sweep_alignment:
  assumes "0 \<le> N" "\<not> isl (truediv S K)"
    and "param \<in> {''spot'', ''strike'', ''volatility'', ''time''}"
  shows "\<exists>xv prices gd.
      generate_sensitivity_data S K r sigma T ot param rp N = Inr (xv, prices, gd)
    \<and> length xv = nat N
    \<and> (param = ''spot'' \<longrightarrow>
         sweep_aligned (\<lambda>x. calculate_option_price (NpFloat x) K r sigma T ot)
           (\<lambda>x. calculate_greeks (NpFloat x) K r sigma T ot) (xv, prices, gd))
    \<and> (param = ''strike'' \<longrightarrow>
         sweep_aligned (\<lambda>x. calculate_option_price S (NpFloat x) r sigma T ot)
           (\<lambda>x. calculate_greeks S (NpFloat x) r sigma T ot) (xv, prices, gd))
    \<and> (param = ''volatility'' \<longrightarrow>
         sweep_aligned (\<lambda>x. calculate_option_price S K r x T ot)
           (\<lambda>x. calculate_greeks S K r x T ot) (xv, prices, gd))
    \<and> (param = ''time'' \<longrightarrow>
         sweep_aligned (\<lambda>x. calculate_option_price S K r sigma x ot)
           (\<lambda>x. calculate_greeks S K r sigma x ot) (xv, prices, gd))
    \<and> (\<forall>s k sg t p.
          2 \<le> N \<and> val S = Fin s \<and> val K = Fin k \<and> sigma = Fin sg \<and> T = Fin t \<and> rp = Fin p \<longrightarrow>
          sorted_wrt fl_less xv
          = (param = ''spot'' \<and> 0 < s * p \<or> param = ''strike'' \<and> 0 < k * p
             \<or> param = ''volatility'' \<and> 0 < sg \<or> param = ''time'' \<and> 1 / 100 < t))"
proof -
  consider "param = ''spot''" | "param = ''strike''" | "param = ''volatility''" | "param = ''time''"
    using assms(3) by blast
  then show ?thesis
  proof cases
    case 1
    from spot_run [OF assms(1), of S rp K r sigma T ot] obtain xv prices gd
      where lin: "linspace (val S * (Fin 1 - rp)) (val S * (Fin 1 + rp)) N = Inr xv"
        and run: "generate_sensitivity_data S K r sigma T ot ''spot'' rp N = Inr (xv, prices, gd)"
        and len: "length xv = nat N"
        and al: "sweep_aligned (\<lambda>x. calculate_option_price (NpFloat x) K r sigma T ot)
                   (\<lambda>x. calculate_greeks (NpFloat x) K r sigma T ot) (xv, prices, gd)"
      by blast
    have "sorted_wrt fl_less xv = (0 < s * p)" if "2 \<le> N" "val S = Fin s" "rp = Fin p" for s p
      using linspace_ascending [OF that(1), of "s * (1 - p)" "s * (1 + p)" xv] lin that(2,3)
      by (simp add: spread_less)
    with 1 run len al show ?thesis by auto
  next
    case 2
    from strike_run [OF assms(1), of K rp S r sigma T ot] obtain xv prices gd
      where lin: "linspace (val K * (Fin 1 - rp)) (val K * (Fin 1 + rp)) N = Inr xv"
        and run: "generate_sensitivity_data S K r sigma T ot ''strike'' rp N = Inr (xv, prices, gd)"
        and len: "length xv = nat N"
        and al: "sweep_aligned (\<lambda>x. calculate_option_price S (NpFloat x) r sigma T ot)
                   (\<lambda>x. calculate_greeks S (NpFloat x) r sigma T ot) (xv, prices, gd)"
      by blast
    have "sorted_wrt fl_less xv = (0 < k * p)" if "2 \<le> N" "val K = Fin k" "rp = Fin p" for k p
      using linspace_ascending [OF that(1), of "k * (1 - p)" "k * (1 + p)" xv] lin that(2,3)
      by (simp add: spread_less)
    with 2 run len al show ?thesis by auto
  next
    case 3
    from volatility_run [OF assms(1,2), of sigma r T ot rp] obtain xv prices gd
      where lin: "linspace (sigma * Fin (5 / 10)) (sigma * Fin (15 / 10)) N = Inr xv"
        and run: "generate_sensitivity_data S K r sigma T ot ''volatility'' rp N = Inr (xv, prices, gd)"
        and len: "length xv = nat N"
        and al: "sweep_aligned (\<lambda>x. calculate_option_price S K r x T ot)
                   (\<lambda>x. calculate_greeks S K r x T ot) (xv, prices, gd)"
      by blast
    have "sorted_wrt fl_less xv = (0 < sg)" if "2 \<le> N" "sigma = Fin sg" for sg
      using linspace_ascending [OF that(1), of "sg * (5 / 10)" "sg * (15 / 10)" xv] lin that(2)
      by simp
    with 3 run len al show ?thesis by auto
  next
    case 4
    from time_run [OF assms(1,2), of T r sigma ot rp] obtain xv prices gd
      where lin: "linspace (Fin (1 / 100)) T N = Inr xv"
        and run: "generate_sensitivity_data S K r sigma T ot ''time'' rp N = Inr (xv, prices, gd)"
        and len: "length xv = nat N"
        and al: "sweep_aligned (\<lambda>x. calculate_option_price S K r sigma x ot)
                   (\<lambda>x. calculate_greeks S K r sigma x ot) (xv, prices, gd)"
      by blast
    have "sorted_wrt fl_less xv = (1 / 100 < t)" if "2 \<le> N" "T = Fin t" for t
      using linspace_ascending [OF that(1), of "1 / 100" t xv] lin that(2)
      by simp
    with 4 run len al show ?thesis by auto
  qed
qed


theorem sweep_alignment_witness:
  "(0::int) \<le> 50 \<and> \<not> isl (truediv (PyFloat (Fin 100)) (PyFloat (Fin 90)))
   \<and> (\<exists>xv prices gd.
        generate_sensitivity_data (PyFloat (Fin 100)) (PyFloat (Fin 90)) (Fin (5 / 100))
          (Fin (20 / 100)) (Fin 1) ''call'' ''spot'' (Fin (20 / 100)) 50 = Inr (xv, prices, gd)
      \<and> length xv = 50
      \<and> sweep_aligned
           (\<lambda>x. calculate_option_price (NpFloat x) (PyFloat (Fin 90)) (Fin (5 / 100))
                  (Fin (20 / 100)) (Fin 1) ''call'')
           (\<lambda>x. calculate_greeks (NpFloat x) (PyFloat (Fin 90)) (Fin (5 / 100))
                  (Fin (20 / 100)) (Fin 1) ''call'')
           (xv, prices, gd)
      \<and> sorted_wrt fl_less xv)"
proof -
  have h: "(0::int) \<le> 50" "\<not> isl (truediv (PyFloat (Fin 100)) (PyFloat (Fin 90)))"
    "''spot'' \<in> {''spot'', ''strike'', ''volatility'', ''time''}"
    by simp_all
  have asc: "sorted_wrt fl_less xv"
    if "\<forall>s k sg t p.
          2 \<le> (50::int) \<and> val (PyFloat (Fin 100)) = Fin s \<and> val (PyFloat (Fin 90)) = Fin k
          \<and> Fin (20 / 100) = Fin sg \<and> Fin 1 = Fin t \<and> Fin (20 / 100) = Fin p \<longrightarrow>
          sorted_wrt fl_less xv
          = (''spot'' = ''spot'' \<and> 0 < s * p \<or> ''spot'' = ''strike'' \<and> 0 < k * p
             \<or> ''spot'' = ''volatility'' \<and> 0 < sg \<or> ''spot'' = ''time'' \<and> 1 / 100 < t)"
    for xv
    using that [rule_format, of 100 90 "20 / 100" 1 "20 / 100"] by simp
  from sweep_alignment [OF h, of "Fin (5 / 100)" "Fin (20 / 100)" "Fin 1" "''call''" "Fin (20 / 100)"]
  show ?thesis
    apply (elim exE conjE)
    subgoal for xv prices gd
      apply (frule asc)
      apply (intro conjI h)
      apply (rule exI [of _ xv], rule exI [of _ prices], rule exI [of _ gd])
      apply simp
      done
    done
qed


subsection \<open>Inputs outside the domain\<close>

text \<open>
  C4, as stated, fails: no function of the source validates its inputs. With the spot
  \<open>-100\<close> \<open>calculate_d1_d2\<close> returns the pair of \<open>nan\<close> and \<open>calculate_option_price\<close> returns
  \<open>nan\<close>; with the unknown selector \<open>rate\<close> the sweep raises \<open>UnboundLocalError\<close>. None of
  them raises a domain error.
\<close>

theorem negative_spot_returns_nan:
  "calculate_d1_d2 (PyFloat (Fin (- 100))) (PyFloat (Fin 100)) (Fin (5 / 100)) (Fin (20 / 100))
     (Fin 1) = Inr (NaN, NaN)
   \<and> calculate_option_price (PyFloat (Fin (- 100))) (PyFloat (Fin 100)) (Fin (5 / 100))
       (Fin (20 / 100)) (Fin 1) ''call'' = Inr NaN
   \<and> generate_sensitivity_data (PyFloat (Fin 100)) (PyFloat (Fin 100)) (Fin (5 / 100))
       (Fin (20 / 100)) (Fin 1) ''call'' ''rate'' (Fin (20 / 100)) 50 = Inl UnboundLocalError"
  using d1_d2_negative_spot price_negative_spot
  by (simp add: generate_unknown)

text \<open>
  C4, amended. No public operation validates its inputs and none raises a domain error.
  \<open>calculate_d1_d2\<close> raises \<open>ZeroDivisionError\<close> exactly when the spot and the strike are
  plain Python numbers and the strike is zero, and the price and the Greeks raise it
  then too. In every other case, for finite inputs whose volatility is at most \<open>1e154\<close>
  in magnitude, \<open>calculate_d1_d2\<close> returns a pair and the price and the Greeks return a
  value; when the spot and the strike are not both non-zero with the same sign, or the
  volatility is zero, or the time is not positive, both components of the pair are
  \<open>nan\<close> or an infinity. An option type whose lower-case form is not \<open>call\<close> is treated as
  \<open>put\<close>.
\<close>

theorem no_domain_error:
  "calculate_d1_d2 S K r sigma T \<noteq> Inl DomainError
   \<and> calculate_option_price S K r sigma T ot \<noteq> Inl DomainError
   \<and> calculate_greeks S K r sigma T ot \<noteq> Inl DomainError
   \<and> generate_sensitivity_data S K r sigma T ot param rp N \<noteq> Inl DomainError
   \<and> (calculate_d1_d2 S K r sigma T = Inl ZeroDivisionError
        \<longleftrightarrow> (\<exists>a. S = PyFloat a) \<and> K = PyFloat (Fin 0))
   \<and> ((\<exists>a. S = PyFloat a) \<and> K = PyFloat (Fin 0) \<longrightarrow>
         calculate_option_price S K r sigma T ot = Inl ZeroDivisionError
       \<and> calculate_greeks S K r sigma T ot = Inl ZeroDivisionError)
   \<and> (\<forall>s k r' sg t.
         val S = Fin s \<and> val K = Fin k \<and> r = Fin r' \<and> sigma = Fin sg \<and> T = Fin t
         \<and> \<bar>sg\<bar> \<le> 10 ^ 154 \<and> \<not> ((\<exists>a. S = PyFloat a) \<and> K = PyFloat (Fin 0)) \<longrightarrow>
         (\<exists>d1 d2 p g.
             calculate_d1_d2 S K r sigma T = Inr (d1, d2)
           \<and> calculate_option_price S K r sigma T ot = Inr p
           \<and> calculate_greeks S K r sigma T ot = Inr g
           \<and> (s * k \<le> 0 \<or> sg = 0 \<or> t \<le> 0 \<longrightarrow> \<not> is_finite d1 \<and> \<not> is_finite d2)))
   \<and> (lower ot \<noteq> ''call'' \<longrightarrow>
         calculate_option_price S K r sigma T ot = calculate_option_price S K r sigma T ''put''
       \<and> calculate_greeks S K r sigma T ot = calculate_greeks S K r sigma T ''put'')"
proof -
  have a: "calculate_d1_d2 S K r sigma T \<noteq> Inl DomainError"
    using d1_d2_raises_iff [of S K r sigma T DomainError] truediv_raises [of S K DomainError]
    by auto
  have b: "calculate_option_price S K r sigma T ot \<noteq> Inl DomainError"
    using price_raises [of S K r sigma T ot DomainError] truediv_raises [of S K DomainError]
    by auto
  have c: "calculate_greeks S K r sigma T ot \<noteq> Inl DomainError"
    using greeks_raises [of S K r sigma T ot DomainError] truediv_raises [of S K DomainError]
    by auto
  have d: "generate_sensitivity_data S K r sigma T ot param rp N \<noteq> Inl DomainError"
    using generate_raises [of S K r sigma T ot param rp N DomainError] by auto
  have e: "calculate_d1_d2 S K r sigma T = Inl ZeroDivisionError
        \<longleftrightarrow> (\<exists>a. S = PyFloat a) \<and> K = PyFloat (Fin 0)"
    unfolding d1_d2_raises_iff by (rule truediv_zero_division)
  have f: "(\<exists>d1 d2 p g.
             calculate_d1_d2 S K r sigma T = Inr (d1, d2)
           \<and> calculate_option_price S K r sigma T ot = Inr p
           \<and> calculate_greeks S K r sigma T ot = Inr g
           \<and> (s * k \<le> 0 \<or> sg = 0 \<or> t \<le> 0 \<longrightarrow> \<not> is_finite d1 \<and> \<not> is_finite d2))"
    if h: "val S = Fin s \<and> val K = Fin k \<and> r = Fin r' \<and> sigma = Fin sg \<and> T = Fin t
         \<and> \<bar>sg\<bar> \<le> 10 ^ 154 \<and> \<not> ((\<exists>a. S = PyFloat a) \<and> K = PyFloat (Fin 0))"
    for s k r' sg t
  proof -
    from h d1_d2_returns [of S K r sigma T] obtain d1 d2
      where dd: "calculate_d1_d2 S K r sigma T = Inr (d1, d2)" by blast
    from price_greeks_return [OF dd, of ot] obtain p g
      where pg: "calculate_option_price S K r sigma T ot = Inr p"
        "calculate_greeks S K r sigma T ot = Inr g" by blast
    have "\<not> is_finite d1 \<and> \<not> is_finite d2" if "s * k \<le> 0 \<or> sg = 0 \<or> t \<le> 0"
      using invalid_not_finite [of S s K k r' sg t d1 d2] h dd that by simp
    with dd pg show ?thesis by blast
  qed
  have g: "calculate_option_price S K r sigma T ot = calculate_option_price S K r sigma T ''put''
       \<and> calculate_greeks S K r sigma T ot = calculate_greeks S K r sigma T ''put''"
    if "lower ot \<noteq> ''call''"
    using that price_dispatch [of S K r sigma T ot] greeks_dispatch [of S K r sigma T ot]
    by simp
  from a b c d e f g price_greeks_zero_division [of S K r sigma T ot] show ?thesis
    by blast
qed

theorem no_domain_error_witness:
  "lower ''straddle'' \<noteq> ''call''
   \<and> \<bar>20 / 100\<bar> \<le> (10::real) ^ 154 \<and> (- 100) * 100 \<le> (0::real)
   \<and> (\<exists>d1 d2 p g.
         calculate_d1_d2 (PyFloat (Fin (- 100))) (PyFloat (Fin 100)) (Fin (5 / 100))
           (Fin (20 / 100)) (Fin 1) = Inr (d1, d2)
       \<and> calculate_option_price (PyFloat (Fin (- 100))) (PyFloat (Fin 100)) (Fin (5 / 100))
           (Fin (20 / 100)) (Fin 1) ''straddle'' = Inr p
       \<and> calculate_greeks (PyFloat (Fin (- 100))) (PyFloat (Fin 100)) (Fin (5 / 100))
           (Fin (20 / 100)) (Fin 1) ''straddle'' = Inr g
       \<and> \<not> is_finite d1 \<and> \<not> is_finite d2)
   \<and> calculate_option_price (PyFloat (Fin (- 100))) (PyFloat (Fin 100)) (Fin (5 / 100))
       (Fin (20 / 100)) (Fin 1) ''straddle''
     = calculate_option_price (PyFloat (Fin (- 100))) (PyFloat (Fin 100)) (Fin (5 / 100))
         (Fin (20 / 100)) (Fin 1) ''put''"
proof -
  note t = no_domain_error [of "PyFloat (Fin (- 100))" "PyFloat (Fin 100)" "Fin (5 / 100)" "Fin (20 / 100)"
      "Fin 1" "''straddle''" "''rate''" "Fin (20 / 100)" 50]
  have l: "lower ''straddle'' \<noteq> ''call''"
    by code_simp
  have b: "\<bar>20 / 100\<bar> \<le> (10::real) ^ 154" "(- 100) * 100 \<le> (0::real)"
    by simp_all
  have h: "val (PyFloat (Fin (- 100))) = Fin (- 100) \<and> val (PyFloat (Fin 100)) = Fin 100
      \<and> Fin (5 / 100) = Fin (5 / 100) \<and> Fin (20 / 100) = Fin (20 / 100) \<and> Fin 1 = Fin 1
      \<and> \<bar>20 / 100\<bar> \<le> (10::real) ^ 154
      \<and> \<not> ((\<exists>a. PyFloat (Fin (- 100)) = PyFloat a) \<and> PyFloat (Fin 100) = PyFloat (Fin 0))"
    by simp
  from t have "\<forall>s k r' sg t.
         val (PyFloat (Fin (- 100))) = Fin s \<and> val (PyFloat (Fin 100)) = Fin k
         \<and> Fin (5 / 100) = Fin r' \<and> Fin (20 / 100) = Fin sg \<and> Fin 1 = Fin t
         \<and> \<bar>sg\<bar> \<le> 10 ^ 154
         \<and> \<not> ((\<exists>a. PyFloat (Fin (- 100)) = PyFloat a) \<and> PyFloat (Fin 100) = PyFloat (Fin 0)) \<longrightarrow>
         (\<exists>d1 d2 p g.
             calculate_d1_d2 (PyFloat (Fin (- 100))) (PyFloat (Fin 100)) (Fin (5 / 100))
               (Fin (20 / 100)) (Fin 1) = Inr (d1, d2)
           \<and> calculate_option_price (PyFloat (Fin (- 100))) (PyFloat (Fin 100)) (Fin (5 / 100))
               (Fin (20 / 100)) (Fin 1) ''straddle'' = Inr p
           \<and> calculate_greeks (PyFloat (Fin (- 100))) (PyFloat (Fin 100)) (Fin (5 / 100))
               (Fin (20 / 100)) (Fin 1) ''straddle'' = Inr g
           \<and> (s * k \<le> 0 \<or> sg = 0 \<or> t \<le> 0 \<longrightarrow> \<not> is_finite d1 \<and> \<not> is_finite d2))"
    by (elim conjE)
  from this [rule_format, OF h] b(2)
  have ret: "\<exists>d1 d2 p g.
         calculate_d1_d2 (PyFloat (Fin (- 100))) (PyFloat (Fin 100)) (Fin (5 / 100))
           (Fin (20 / 100)) (Fin 1) = Inr (d1, d2)
       \<and> calculate_option_price (PyFloat (Fin (- 100))) (PyFloat (Fin 100)) (Fin (5 / 100))
           (Fin (20 / 100)) (Fin 1) ''straddle'' = Inr p
       \<and> calculate_greeks (PyFloat (Fin (- 100))) (PyFloat (Fin 100)) (Fin (5 / 100))
           (Fin (20 / 100)) (Fin 1) ''straddle'' = Inr g
       \<and> \<not> is_finite d1 \<and> \<not> is_finite d2"
    by blast
  from t l have price: "calculate_option_price (PyFloat (Fin (- 100))) (PyFloat (Fin 100))
       (Fin (5 / 100)) (Fin (20 / 100)) (Fin 1) ''straddle''
     = calculate_option_price (PyFloat (Fin (- 100))) (PyFloat (Fin 100)) (Fin (5 / 100))
         (Fin (20 / 100)) (Fin 1) ''put''"
    by (elim conjE) simp
  from l b ret price show ?thesis
    by blast
qed
end
